theory Spec2Isabelle
  imports Complex_Main
begin

section \<open>Configuration (config.py)\<close>

text \<open>
  Python floats are modelled as mathematical reals, Python ints as \<open>int\<close>.
  The dictionaries of config.py are only ever indexed with literal keys, so each becomes
  a function on the enumeration of its keys.
\<close>

datatype component = CPU | GPU | SSD | Motherboard

datatype fan = Cpu_fan | Gpu_fan | Case_fan

definition CLIENT_ID :: string where
  "CLIENT_ID = ''GamingPC4''"

fun COMPONENT_IDLE_TEMPS :: "component \<Rightarrow> real" where
  "COMPONENT_IDLE_TEMPS CPU = 42"
| "COMPONENT_IDLE_TEMPS GPU = 38"
| "COMPONENT_IDLE_TEMPS SSD = 35"
| "COMPONENT_IDLE_TEMPS Motherboard = 33"

fun COMPONENT_MAX_TEMPS :: "component \<Rightarrow> real" where
  "COMPONENT_MAX_TEMPS CPU = 88"
| "COMPONENT_MAX_TEMPS GPU = 85"
| "COMPONENT_MAX_TEMPS SSD = 70"
| "COMPONENT_MAX_TEMPS Motherboard = 60"

fun FAN_IDLE_SPEEDS :: "fan \<Rightarrow> real" where
  "FAN_IDLE_SPEEDS Cpu_fan = 1200"
| "FAN_IDLE_SPEEDS Gpu_fan = 1000"
| "FAN_IDLE_SPEEDS Case_fan = 800"

definition GAMING_SESSION_START_PROBABILITY :: real where
  "GAMING_SESSION_START_PROBABILITY = 2 / 100"

definition GAMING_WARMUP_TIME :: int where
  "GAMING_WARMUP_TIME = 30"

definition GAMING_DURATION :: int where
  "GAMING_DURATION = 120"

definition GAMING_COOLDOWN_RATE :: real where
  "GAMING_COOLDOWN_RATE = 2 / 100"

section \<open>The simulator (simulate\_pc\_metrics.py, class PCComponentSimulator)\<close>

record simulator =
  cpu_temp :: real
  gpu_temp :: real
  ssd_temp :: real
  motherboard_temp :: real
  cpu_fan_rpm :: real
  gpu_fan_rpm :: real
  case_fan_rpm :: real
  gaming_session :: bool
  gaming_intensity :: real
  session_time :: int
  cooling_phase :: bool
  ambient_temp :: real

text \<open>
  The values the module \<open>random\<close> hands out during one tick. Each field is what the
  corresponding call returns if the tick reaches it; a tick that does not reach the call
  ignores the field.
\<close>

record draws =
  start_roll :: real       \<comment> \<open>\<open>random.random()\<close> in update\_gaming\_session\<close>
  warmup_jitter :: real    \<comment> \<open>\<open>random.uniform(-0.1, 0.1)\<close>\<close>
  random_spikes :: real    \<comment> \<open>\<open>random.uniform(-0.1, 0.15)\<close>\<close>
  cpu_noise :: real        \<comment> \<open>\<open>random.uniform(-1.2, 1.2)\<close>\<close>
  gpu_noise :: real        \<comment> \<open>\<open>random.uniform(-1.5, 1.8)\<close>\<close>
  ssd_noise :: real        \<comment> \<open>\<open>random.uniform(-0.6, 0.6)\<close>\<close>
  mb_noise :: real         \<comment> \<open>\<open>random.uniform(-0.4, 0.4)\<close>\<close>
  cpu_fan_jitter :: int    \<comment> \<open>\<open>random.randint(-25, 25)\<close>\<close>
  gpu_fan_jitter :: int    \<comment> \<open>\<open>random.randint(-20, 20)\<close>\<close>
  case_fan_jitter :: int   \<comment> \<open>\<open>random.randint(-15, 15)\<close>\<close>

text \<open>The ranges the library promises for these calls.\<close>

definition valid_draws :: "draws \<Rightarrow> bool" where
  "valid_draws d =
     (0 \<le> start_roll d \<and> start_roll d < 1 \<and>
      - (1 / 10) \<le> warmup_jitter d \<and> warmup_jitter d \<le> 1 / 10 \<and>
      - (1 / 10) \<le> random_spikes d \<and> random_spikes d \<le> 15 / 100 \<and>
      - (12 / 10) \<le> cpu_noise d \<and> cpu_noise d \<le> 12 / 10 \<and>
      - (15 / 10) \<le> gpu_noise d \<and> gpu_noise d \<le> 18 / 10 \<and>
      - (6 / 10) \<le> ssd_noise d \<and> ssd_noise d \<le> 6 / 10 \<and>
      - (4 / 10) \<le> mb_noise d \<and> mb_noise d \<le> 4 / 10 \<and>
      - 25 \<le> cpu_fan_jitter d \<and> cpu_fan_jitter d \<le> 25 \<and>
      - 20 \<le> gpu_fan_jitter d \<and> gpu_fan_jitter d \<le> 20 \<and>
      - 15 \<le> case_fan_jitter d \<and> case_fan_jitter d \<le> 15)"

text \<open>\<open>__init__\<close>\<close>

definition init_simulator :: simulator where
  "init_simulator =
     \<lparr> cpu_temp = COMPONENT_IDLE_TEMPS CPU,
       gpu_temp = COMPONENT_IDLE_TEMPS GPU,
       ssd_temp = COMPONENT_IDLE_TEMPS SSD,
       motherboard_temp = COMPONENT_IDLE_TEMPS Motherboard,
       cpu_fan_rpm = FAN_IDLE_SPEEDS Cpu_fan,
       gpu_fan_rpm = FAN_IDLE_SPEEDS Gpu_fan,
       case_fan_rpm = FAN_IDLE_SPEEDS Case_fan,
       gaming_session = False,
       gaming_intensity = 0,
       session_time = 0,
       cooling_phase = False,
       ambient_temp = 22 \<rparr>"

text \<open>\<open>update_gaming_session\<close>, branch for branch.\<close>

definition update_gaming_session :: "draws \<Rightarrow> simulator \<Rightarrow> simulator" where
  "update_gaming_session d s =
     (if \<not> gaming_session s then
        (if start_roll d < GAMING_SESSION_START_PROBABILITY then
           s\<lparr> gaming_session := True, session_time := 0,
              cooling_phase := False, gaming_intensity := 1 / 10 \<rparr>
         else s)
      else
        (let t = session_time s + 1;
             s1 = s\<lparr> session_time := t \<rparr>
         in if \<not> cooling_phase s1 then
              (if t \<le> GAMING_WARMUP_TIME then
                 (let target_intensity =
                        (real_of_int t / real_of_int GAMING_WARMUP_TIME) * (7 / 10)
                  in s1\<lparr> gaming_intensity :=
                            min (9 / 10) (target_intensity + warmup_jitter d) \<rparr>)
               else if t \<le> GAMING_WARMUP_TIME + GAMING_DURATION then
                 (let base_intensity = 75 / 100 + (2 / 10) * sin (real_of_int t * (5 / 100));
                      scene_variation = (15 / 100) * sin (real_of_int t * (3 / 10))
                  in s1\<lparr> gaming_intensity :=
                            max (1 / 2)
                              (min 1 (base_intensity + scene_variation + random_spikes d)) \<rparr>)
               else s1\<lparr> cooling_phase := True \<rparr>)
            else
              (let s2 = s1\<lparr> gaming_intensity :=
                             max 0 (gaming_intensity s1 - GAMING_COOLDOWN_RATE) \<rparr>
               in if gaming_intensity s2 \<le> 0
                  then s2\<lparr> gaming_session := False, session_time := 0 \<rparr>
                  else s2)))"

text \<open>
  \<open>simulate_temperature_changes\<close>. The argument \<open>now\<close> is what \<open>time.time()\<close>
  returns when the method runs.
\<close>

definition simulate_temperature_changes :: "draws \<Rightarrow> real \<Rightarrow> simulator \<Rightarrow> simulator" where
  "simulate_temperature_changes d now s =
     (let time_factor = now * (1 / 10000);
          ambient_variation = 2 * sin time_factor;
          current_ambient = ambient_temp s + ambient_variation;
          cpu_gaming_load = gaming_intensity s * 35;
          gpu_gaming_load = gaming_intensity s * 40;
          ssd_gaming_load = gaming_intensity s * 15;
          motherboard_load = gaming_intensity s * 12;
          cpu_target = COMPONENT_IDLE_TEMPS CPU + cpu_gaming_load + (current_ambient - 22);
          cpu_change_rate = (if gaming_session s then 12 / 100 else 8 / 100);
          cpu_delta = (cpu_target - cpu_temp s) * cpu_change_rate + cpu_noise d;
          gpu_target = COMPONENT_IDLE_TEMPS GPU + gpu_gaming_load + (current_ambient - 22);
          gpu_change_rate = (if gaming_session s then 10 / 100 else 6 / 100);
          gpu_delta = (gpu_target - gpu_temp s) * gpu_change_rate + gpu_noise d;
          ssd_target = COMPONENT_IDLE_TEMPS SSD + ssd_gaming_load + (current_ambient - 22);
          ssd_change_rate = 6 / 100;
          ssd_delta = (ssd_target - ssd_temp s) * ssd_change_rate + ssd_noise d;
          mb_target = COMPONENT_IDLE_TEMPS Motherboard + motherboard_load + (current_ambient - 22);
          mb_change_rate = 5 / 100;
          mb_delta = (mb_target - motherboard_temp s) * mb_change_rate + mb_noise d
      in s\<lparr> cpu_temp := max 25 (min (COMPONENT_MAX_TEMPS CPU) (cpu_temp s + cpu_delta)),
            gpu_temp := max 25 (min (COMPONENT_MAX_TEMPS GPU) (gpu_temp s + gpu_delta)),
            ssd_temp := max 20 (min (COMPONENT_MAX_TEMPS SSD) (ssd_temp s + ssd_delta)),
            motherboard_temp :=
              max 20 (min (COMPONENT_MAX_TEMPS Motherboard) (motherboard_temp s + mb_delta)) \<rparr>)"

text \<open>\<open>calculate_fan_speeds\<close>: the three piecewise-linear targets, then the smoothed step.\<close>

definition cpu_fan_target :: "real \<Rightarrow> real" where
  "cpu_fan_target t =
     (if t < 45 then 800 + (t - 40) * 60
      else if t < 65 then 1100 + (t - 45) * 85
      else if t < 80 then 2800 + (t - 65) * 120
      else 4600 + (t - 80) * 50)"

definition gpu_fan_target :: "real \<Rightarrow> real" where
  "gpu_fan_target t =
     (if t < 40 then max 0 (600 + (t - 35) * 80)
      else if t < 60 then 1200 + (t - 40) * 70
      else if t < 75 then 2600 + (t - 60) * 90
      else 3950 + (t - 75) * 60)"

definition case_fan_target :: "real \<Rightarrow> real" where
  "case_fan_target avg_temp =
     (if avg_temp < 45 then 400 + (avg_temp - 35) * 25
      else if avg_temp < 65 then 650 + (avg_temp - 45) * 40
      else 1450 + (avg_temp - 65) * 55)"

definition calculate_fan_speeds :: "draws \<Rightarrow> simulator \<Rightarrow> simulator" where
  "calculate_fan_speeds d s =
     (let avg_temp = (cpu_temp s + gpu_temp s) / 2;
          fan_response_rate = 15 / 100;
          cpu1 = cpu_fan_rpm s + (cpu_fan_target (cpu_temp s) - cpu_fan_rpm s) * fan_response_rate;
          gpu1 = gpu_fan_rpm s + (gpu_fan_target (gpu_temp s) - gpu_fan_rpm s) * fan_response_rate;
          case1 = case_fan_rpm s + (case_fan_target avg_temp - case_fan_rpm s) * fan_response_rate;
          cpu2 = cpu1 + real_of_int (cpu_fan_jitter d);
          gpu2 = gpu1 + real_of_int (gpu_fan_jitter d);
          case2 = case1 + real_of_int (case_fan_jitter d)
      in s\<lparr> cpu_fan_rpm := max 0 (min 4800 cpu2),
            gpu_fan_rpm := max 0 (min 4200 gpu2),
            case_fan_rpm := max 0 (min 2800 case2) \<rparr>)"

text \<open>One iteration of the state update in \<open>main\<close>: the three calls in the order of the loop.\<close>

definition tick :: "draws \<Rightarrow> real \<Rightarrow> simulator \<Rightarrow> simulator" where
  "tick d now s =
     calculate_fan_speeds d (simulate_temperature_changes d now (update_gaming_session d s))"

text \<open>The fan-specific maximum of the final clamp in \<open>calculate_fan_speeds\<close>.\<close>

fun fan_max_rpm :: "fan \<Rightarrow> real" where
  "fan_max_rpm Cpu_fan = 4800"
| "fan_max_rpm Gpu_fan = 4200"
| "fan_max_rpm Case_fan = 2800"

text \<open>The lower temperature bound written into \<open>simulate_temperature_changes\<close>.\<close>

fun component_min_temp :: "component \<Rightarrow> real" where
  "component_min_temp CPU = 25"
| "component_min_temp GPU = 25"
| "component_min_temp SSD = 20"
| "component_min_temp Motherboard = 20"

fun temp_of :: "simulator \<Rightarrow> component \<Rightarrow> real" where
  "temp_of s CPU = cpu_temp s"
| "temp_of s GPU = gpu_temp s"
| "temp_of s SSD = ssd_temp s"
| "temp_of s Motherboard = motherboard_temp s"

fun rpm_of :: "simulator \<Rightarrow> fan \<Rightarrow> real" where
  "rpm_of s Cpu_fan = cpu_fan_rpm s"
| "rpm_of s Gpu_fan = gpu_fan_rpm s"
| "rpm_of s Case_fan = case_fan_rpm s"

text \<open>
  \<open>get_sensor_data\<close>. The dictionary it returns has a fixed set of keys; the same
  dictionaries are later read with \<open>d.get(key, default)\<close>, so a reading is a record
  whose fields are optional (\<open>None\<close>: the key is absent).
  \<open>round(x, n)\<close> is rounding to the nearest multiple of \<open>10^-n\<close> with ties to even,
  \<open>int(x)\<close> truncates towards zero.
\<close>

record reading =
  r_timestamp :: "int option"
  r_device_id :: "string option"
  r_cpu_temp :: "real option"
  r_gpu_temp :: "real option"
  r_ssd_temp :: "real option"
  r_motherboard_temp :: "real option"
  r_cpu_fan_rpm :: "real option"
  r_gpu_fan_rpm :: "real option"
  r_case_fan_rpm :: "real option"
  r_gaming_session :: "bool option"
  r_gaming_intensity :: "real option"

definition round_half_even :: "real \<Rightarrow> int" where
  "round_half_even x =
     (let f = \<lfloor>x\<rfloor>; r = x - real_of_int f
      in if r < 1 / 2 then f else if 1 / 2 < r then f + 1 else if even f then f else f + 1)"

definition py_round :: "real \<Rightarrow> nat \<Rightarrow> real" where
  "py_round x n = real_of_int (round_half_even (x * 10 ^ n)) / 10 ^ n"

definition py_int :: "real \<Rightarrow> int" where
  "py_int x = (if 0 \<le> x then \<lfloor>x\<rfloor> else \<lceil>x\<rceil>)"

definition get_sensor_data :: "real \<Rightarrow> simulator \<Rightarrow> reading" where
  "get_sensor_data now s =
     \<lparr> r_timestamp = Some (py_int now),
       r_device_id = Some CLIENT_ID,
       r_cpu_temp = Some (py_round (cpu_temp s) 1),
       r_gpu_temp = Some (py_round (gpu_temp s) 1),
       r_ssd_temp = Some (py_round (ssd_temp s) 1),
       r_motherboard_temp = Some (py_round (motherboard_temp s) 1),
       r_cpu_fan_rpm = Some (real_of_int (py_int (cpu_fan_rpm s))),
       r_gpu_fan_rpm = Some (real_of_int (py_int (gpu_fan_rpm s))),
       r_case_fan_rpm = Some (real_of_int (py_int (case_fan_rpm s))),
       r_gaming_session = Some (gaming_session s),
       r_gaming_intensity = Some (py_round (gaming_intensity s) 2) \<rparr>"

text \<open>
  The loop of \<open>main\<close>, as far as the readings go: per iteration the three update calls
  and \<open>get_sensor_data\<close>. The wall clock is read twice per iteration, in
  \<open>simulate_temperature_changes\<close> and in \<open>get_sensor_data\<close>; a run is driven by the list
  of the draws and the list of the clock values of its iterations.
\<close>

record clock =
  sim_time :: real     \<comment> \<open>\<open>time.time()\<close> in simulate\_temperature\_changes\<close>
  read_time :: real    \<comment> \<open>\<open>time.time()\<close> in get\_sensor\_data\<close>

fun run_ticks :: "simulator \<Rightarrow> draws list \<Rightarrow> clock list \<Rightarrow> reading list" where
  "run_ticks s (d # ds) (c # cs) =
     (let s' = tick d (sim_time c) s
      in get_sensor_data (read_time c) s' # run_ticks s' ds cs)"
| "run_ticks s ds cs = []"

text \<open>The states the loop can be in at the start of an iteration.\<close>

inductive reachable :: "simulator \<Rightarrow> bool" where
  reachable_init: "reachable init_simulator"
| reachable_tick: "reachable s \<Longrightarrow> valid_draws d \<Longrightarrow> reachable (tick d now s)"

text \<open>Concrete draws used to exercise the definitions: all noise zero.\<close>

definition quiet_draws :: "real \<Rightarrow> real \<Rightarrow> draws" where
  "quiet_draws roll jitter =
     \<lparr> start_roll = roll, warmup_jitter = jitter, random_spikes = 0,
       cpu_noise = 0, gpu_noise = 0, ssd_noise = 0, mb_noise = 0,
       cpu_fan_jitter = 0, gpu_fan_jitter = 0, case_fan_jitter = 0 \<rparr>"

text \<open>The fields the gaming session state machine reads and writes.\<close>

definition session_fields :: "simulator \<Rightarrow> bool \<times> real \<times> int \<times> bool" where
  "session_fields s = (gaming_session s, gaming_intensity s, session_time s, cooling_phase s)"

text \<open>A reading with its timestamp left out.\<close>

definition without_timestamp :: "reading \<Rightarrow> reading" where
  "without_timestamp r = r\<lparr> r_timestamp := None \<rparr>"

section \<open>Python values and library calls used by the dashboard and the optimizer\<close>

text \<open>
  The exceptions the modelled code can raise. Every \<open>raise\<close> of the source and every
  failing library call is a value \<open>Inl e\<close> of the result type.
\<close>

datatype py_error =
    KeyError | ValueError | JSONDecodeError | AttributeError | TypeError
  | IndexError | RequestException | FileNotFoundError

text \<open>
  What \<open>json.loads\<close> returns. An object keeps its keys in the order of their first
  occurrence and, for a repeated key, the last value, as a Python \<open>dict\<close> does.
  \<open>JNaN\<close>, \<open>JInfinity\<close> and \<open>JNegInfinity\<close> are the three floats that are no real
  numbers.
\<close>

datatype jval =
    JNull | JBool bool | JInt int | JFloat real | JNaN | JInfinity | JNegInfinity
  | JStr string | JArr "jval list" | JObj "(string \<times> jval) list"

fun dict_set :: "string \<Rightarrow> jval \<Rightarrow> (string \<times> jval) list \<Rightarrow> (string \<times> jval) list" where
  "dict_set k v [] = [(k, v)]"
| "dict_set k v ((k', v') # kvs) =
     (if k' = k then (k, v) # kvs else (k', v') # dict_set k v kvs)"

text \<open>\<open>d.get(key, default)\<close> on a dictionary.\<close>

definition dict_get :: "(string \<times> jval) list \<Rightarrow> string \<Rightarrow> jval \<Rightarrow> jval" where
  "dict_get kvs k dflt = (case map_of kvs k of None \<Rightarrow> dflt | Some v \<Rightarrow> v)"

subsection \<open>String methods\<close>

definition py_isspace :: "char \<Rightarrow> bool" where
  "py_isspace c =
     (c \<in> set [CHR '' '', CHR 0x09, CHR 0x0A, CHR 0x0B, CHR 0x0C, CHR 0x0D,
                CHR 0x1C, CHR 0x1D, CHR 0x1E, CHR 0x1F, CHR 0x85, CHR 0xA0])"

definition strip :: "string \<Rightarrow> string" where
  "strip s = rev (dropWhile py_isspace (rev (dropWhile py_isspace s)))"

definition endswith :: "string \<Rightarrow> string \<Rightarrow> bool" where
  "endswith s suf = (length suf \<le> length s \<and> drop (length s - length suf) s = suf)"

definition startswith :: "string \<Rightarrow> string \<Rightarrow> bool" where
  "startswith s pre = (take (length pre) s = pre)"

text \<open>\<open>s.find(c)\<close> and \<open>s.rfind(c)\<close> for a one-character argument: an index, or \<open>-1\<close>.\<close>

fun find_char :: "string \<Rightarrow> char \<Rightarrow> int" where
  "find_char [] c = - 1"
| "find_char (x # xs) c =
     (if x = c then 0
      else (let i = find_char xs c in if i = - 1 then - 1 else i + 1))"

definition rfind_char :: "string \<Rightarrow> char \<Rightarrow> int" where
  "rfind_char s c =
     (let i = find_char (rev s) c
      in if i = - 1 then - 1 else int (length s) - 1 - i)"

text \<open>\<open>s[a:b]\<close> for indices that are not negative.\<close>

definition slice :: "string \<Rightarrow> int \<Rightarrow> int \<Rightarrow> string" where
  "slice s a b = take (nat b - nat a) (drop (nat a) s)"

text \<open>\<open>s.split('\n')\<close>\<close>

fun split_lines :: "string \<Rightarrow> string list" where
  "split_lines [] = [[]]"
| "split_lines (c # cs) =
     (if c = CHR 0x0A then [] # split_lines cs
      else (case split_lines cs of
              [] \<Rightarrow> [[c]]
            | l # ls \<Rightarrow> (c # l) # ls))"

subsection \<open>A model of \<open>json.loads\<close>\<close>

text \<open>
  \<open>json.loads\<close> is library code. The model accepts what the library accepts with its
  default arguments: objects, arrays, strings with the one-character escapes and the
  \<open>\uXXXX\<close> escapes (a surrogate pair becomes one code point), integers, decimal and
  exponent numbers, \<open>true\<close>, \<open>false\<close>, \<open>null\<close>, the library's extensions \<open>NaN\<close>,
  \<open>Infinity\<close> and \<open>-Infinity\<close>, and white space between tokens. Everything else is a
  decoding error. A number with a fraction or an exponent becomes the real it denotes.
  A character is a code point below 256; a code point from 256 on, which only a \<open>\u\<close>
  escape can produce here, has no character and is kept as the bytes of its UTF-8
  encoding, so a string of ASCII characters is never confused with another string.
  The limits of the library on resources (nesting depth, number of digits of an integer)
  are not modelled. The text is first cut into tokens, then a stack of the open arrays
  and objects consumes the tokens one by one.
\<close>

datatype token =
    LBrace | RBrace | LBracket | RBracket | Comma | Colon | Scalar jval

definition json_space :: "char \<Rightarrow> bool" where
  "json_space c = (c \<in> set [CHR '' '', CHR 0x09, CHR 0x0A, CHR 0x0D])"

definition is_digit :: "char \<Rightarrow> bool" where
  "is_digit c = (c \<in> set ''0123456789'')"

definition number_char :: "char \<Rightarrow> bool" where
  "number_char c = (is_digit c \<or> c \<in> set ''+-.eE'')"

definition digits_val :: "string \<Rightarrow> nat" where
  "digits_val ds = foldl (\<lambda>n c. 10 * n + (of_char c - 48)) 0 ds"

definition unescape :: "char \<Rightarrow> char option" where
  "unescape e =
     (if e = CHR 0x22 then Some (CHR 0x22)
      else if e = CHR 0x5C then Some (CHR 0x5C)
      else if e = CHR ''/'' then Some (CHR ''/'')
      else if e = CHR ''b'' then Some (CHR 0x08)
      else if e = CHR ''f'' then Some (CHR 0x0C)
      else if e = CHR ''n'' then Some (CHR 0x0A)
      else if e = CHR ''r'' then Some (CHR 0x0D)
      else if e = CHR ''t'' then Some (CHR 0x09)
      else None)"

text \<open>The four hexadecimal digits of a \<open>\uXXXX\<close> escape and their value.\<close>

definition is_hex4 :: "string \<Rightarrow> bool" where
  "is_hex4 h = (length h = 4 \<and> list_all (\<lambda>c. c \<in> set ''0123456789abcdefABCDEF'') h)"

definition hex_val :: "char \<Rightarrow> nat" where
  "hex_val c =
     (if c \<in> set ''0123456789'' then of_char c - 48
      else if c \<in> set ''abcdef'' then of_char c - 87
      else of_char c - 55)"

definition hex4_val :: "string \<Rightarrow> nat" where
  "hex4_val h = foldl (\<lambda>n c. 16 * n + hex_val c) 0 h"

text \<open>The characters that stand for a decoded code point.\<close>

definition code_point_chars :: "nat \<Rightarrow> string" where
  "code_point_chars n =
     (if n < 256 then [char_of n]
      else if n < 2048 then [char_of (192 + n div 64), char_of (128 + n mod 64)]
      else if n < 65536 then
        [char_of (224 + n div 4096), char_of (128 + (n div 64) mod 64), char_of (128 + n mod 64)]
      else
        [char_of (240 + n div 262144), char_of (128 + (n div 4096) mod 64),
         char_of (128 + (n div 64) mod 64), char_of (128 + n mod 64)])"

text \<open>A high surrogate directly followed by the escape of a low surrogate.\<close>

definition surrogate_pair :: "string \<Rightarrow> bool" where
  "surrogate_pair cs =
     (55296 \<le> hex4_val (take 4 cs) \<and> hex4_val (take 4 cs) \<le> 56319 \<and>
      take 2 (drop 4 cs) = [CHR 0x5C, CHR ''u''] \<and>
      is_hex4 (take 4 (drop 6 cs)) \<and>
      56320 \<le> hex4_val (take 4 (drop 6 cs)) \<and> hex4_val (take 4 (drop 6 cs)) \<le> 57343)"

definition pair_code_point :: "string \<Rightarrow> nat" where
  "pair_code_point cs =
     65536 + (hex4_val (take 4 cs) - 55296) * 1024 + (hex4_val (take 4 (drop 6 cs)) - 56320)"

text \<open>
  The body of a string literal, after its opening quote: the decoded characters and the
  text after the closing quote. A raw control character ends the decoding with an error,
  as in the library's strict mode.
\<close>

function scan_string :: "string \<Rightarrow> (string \<times> string) option" where
  "scan_string [] = None"
| "scan_string (c # cs) =
     (if c = CHR 0x22 then Some ([], cs)
      else if c = CHR 0x5C then
        (case cs of
           [] \<Rightarrow> None
         | e # cs' \<Rightarrow>
             if e = CHR ''u'' then
               (if \<not> is_hex4 (take 4 cs') then None
                else if surrogate_pair cs' then
                  (case scan_string (drop 10 cs') of
                     None \<Rightarrow> None
                   | Some (body, rest) \<Rightarrow>
                       Some (code_point_chars (pair_code_point cs') @ body, rest))
                else
                  (case scan_string (drop 4 cs') of
                     None \<Rightarrow> None
                   | Some (body, rest) \<Rightarrow>
                       Some (code_point_chars (hex4_val (take 4 cs')) @ body, rest)))
             else
               (case unescape e of
                  None \<Rightarrow> None
                | Some ch \<Rightarrow>
                    (case scan_string cs' of
                       None \<Rightarrow> None
                     | Some (body, rest) \<Rightarrow> Some (ch # body, rest))))
      else if (of_char c :: nat) < 32 then None
      else (case scan_string cs of
              None \<Rightarrow> None
            | Some (body, rest) \<Rightarrow> Some (c # body, rest)))"
  by pat_completeness auto
termination
  by (relation "measure length") auto

text \<open>The value of a number lexeme: \<open>-? (0 | [1-9][0-9]*) (. [0-9]+)? ([eE] [+-]? [0-9]+)?\<close>.\<close>

definition parse_number :: "string \<Rightarrow> jval option" where
  "parse_number s =
     (let neg = (take 1 s = ''-'');
          s1 = (if neg then drop 1 s else s);
          ip = takeWhile is_digit s1;
          s2 = dropWhile is_digit s1;
          has_frac = (take 1 s2 = ''.'');
          fp = (if has_frac then takeWhile is_digit (drop 1 s2) else []);
          s3 = (if has_frac then dropWhile is_digit (drop 1 s2) else s2);
          has_exp = (take 1 s3 = ''e'' \<or> take 1 s3 = ''E'');
          s4 = drop 1 s3;
          exp_neg = (take 1 s4 = ''-'');
          ed = (if take 1 s4 = ''-'' \<or> take 1 s4 = ''+'' then drop 1 s4 else s4);
          mantissa = real (digits_val ip) + real (digits_val fp) / 10 ^ length fp;
          signed = (if neg then - mantissa else mantissa)
      in if ip = [] \<or> (take 1 ip = ''0'' \<and> 1 < length ip) then None
         else if has_frac \<and> fp = [] then None
         else if \<not> has_exp then
           (if s3 \<noteq> [] then None
            else if has_frac then Some (JFloat signed)
            else Some (JInt (if neg then - int (digits_val ip) else int (digits_val ip))))
         else if ed = [] \<or> \<not> list_all is_digit ed then None
         else Some (JFloat (if exp_neg then signed / 10 ^ digits_val ed
                            else signed * 10 ^ digits_val ed)))"

lemma scan_string_shorter:
  "scan_string cs = Some (body, rest) \<Longrightarrow> length rest < length cs"
proof (induction cs arbitrary: body rest rule: scan_string.induct)
  case 1
  then show ?case by simp
next
  case (2 c cs)
  show ?case
  proof (cases cs)
    case Nil
    with "2.prems" show ?thesis by (simp split: if_splits)
  next
    case (Cons e cs')
    have d4: "length (drop 4 cs') \<le> length cs'" and d10: "length (drop 10 cs') \<le> length cs'"
      by simp_all
    from "2.prems" "2.IH" Cons d4 d10 show ?thesis
      by (fastforce split: if_splits option.splits)
  qed
qed

function lex_json :: "string \<Rightarrow> token list option" where
  "lex_json [] = Some []"
| "lex_json (c # cs) =
     (if json_space c then lex_json cs
      else if c = CHR ''{'' then map_option ((#) LBrace) (lex_json cs)
      else if c = CHR ''}'' then map_option ((#) RBrace) (lex_json cs)
      else if c = CHR ''['' then map_option ((#) LBracket) (lex_json cs)
      else if c = CHR '']'' then map_option ((#) RBracket) (lex_json cs)
      else if c = CHR '','' then map_option ((#) Comma) (lex_json cs)
      else if c = CHR '':'' then map_option ((#) Colon) (lex_json cs)
      else if c = CHR 0x22 then
        (case scan_string cs of
           None \<Rightarrow> None
         | Some (body, rest) \<Rightarrow> map_option ((#) (Scalar (JStr body))) (lex_json rest))
      else if c = CHR ''-'' \<and> take 8 cs = ''Infinity'' then
        map_option ((#) (Scalar JNegInfinity)) (lex_json (drop 8 cs))
      else if c = CHR ''-'' \<or> is_digit c then
        (case parse_number (c # takeWhile number_char cs) of
           None \<Rightarrow> None
         | Some v \<Rightarrow> map_option ((#) (Scalar v)) (lex_json (dropWhile number_char cs)))
      else if c = CHR ''t'' \<and> take 3 cs = ''rue'' then
        map_option ((#) (Scalar (JBool True))) (lex_json (drop 3 cs))
      else if c = CHR ''f'' \<and> take 4 cs = ''alse'' then
        map_option ((#) (Scalar (JBool False))) (lex_json (drop 4 cs))
      else if c = CHR ''n'' \<and> take 3 cs = ''ull'' then
        map_option ((#) (Scalar JNull)) (lex_json (drop 3 cs))
      else if c = CHR ''N'' \<and> take 2 cs = ''aN'' then
        map_option ((#) (Scalar JNaN)) (lex_json (drop 2 cs))
      else if c = CHR ''I'' \<and> take 7 cs = ''nfinity'' then
        map_option ((#) (Scalar JInfinity)) (lex_json (drop 7 cs))
      else None)"
  by pat_completeness auto
termination
proof (relation "measure length")
  show "wf (measure length)" by simp
qed (auto simp add: less_Suc_eq_le length_dropWhile_le dest: scan_string_shorter)

text \<open>
  The parser state: the open containers, innermost first, and what may come next.
  An open object remembers the key whose value is being read.
\<close>

datatype frame = Open_array "jval list" | Open_object "(string \<times> jval) list" "string option"

datatype expect =
    Value              \<comment> \<open>a value must follow: at the start, after \<open>,\<close> in an array, after \<open>:\<close>\<close>
  | Value_or_close     \<comment> \<open>directly after \<open>[\<close>\<close>
  | Key_or_close       \<comment> \<open>directly after \<open>{\<close>\<close>
  | Key                \<comment> \<open>after \<open>,\<close> in an object\<close>
  | Colon_next         \<comment> \<open>after a key\<close>
  | Comma_or_close     \<comment> \<open>after a value inside a container\<close>
  | Finished jval      \<comment> \<open>the top-level value is complete\<close>

text \<open>A completed value goes into the innermost open container, or is the result.\<close>

fun put_value :: "jval \<Rightarrow> frame list \<Rightarrow> (frame list \<times> expect) option" where
  "put_value v [] = Some ([], Finished v)"
| "put_value v (Open_array xs # st) = Some (Open_array (xs @ [v]) # st, Comma_or_close)"
| "put_value v (Open_object kvs (Some k) # st) =
     Some (Open_object (dict_set k v kvs) None # st, Comma_or_close)"
| "put_value v (Open_object kvs None # st) = None"

definition start_value :: "frame list \<Rightarrow> token \<Rightarrow> (frame list \<times> expect) option" where
  "start_value st t =
     (case t of
        Scalar v \<Rightarrow> put_value v st
      | LBracket \<Rightarrow> Some (Open_array [] # st, Value_or_close)
      | LBrace \<Rightarrow> Some (Open_object [] None # st, Key_or_close)
      | _ \<Rightarrow> None)"

definition read_key :: "frame list \<Rightarrow> token \<Rightarrow> (frame list \<times> expect) option" where
  "read_key st t =
     (case st of
        Open_object kvs p # r \<Rightarrow>
          (case t of
             Scalar (JStr k) \<Rightarrow> Some (Open_object kvs (Some k) # r, Colon_next)
           | _ \<Rightarrow> None)
      | _ \<Rightarrow> None)"

definition close_array :: "frame list \<Rightarrow> (frame list \<times> expect) option" where
  "close_array st =
     (case st of Open_array xs # r \<Rightarrow> put_value (JArr xs) r | _ \<Rightarrow> None)"

definition close_object :: "frame list \<Rightarrow> (frame list \<times> expect) option" where
  "close_object st =
     (case st of Open_object kvs p # r \<Rightarrow> put_value (JObj kvs) r | _ \<Rightarrow> None)"

definition parse_step :: "frame list \<times> expect \<Rightarrow> token \<Rightarrow> (frame list \<times> expect) option" where
  "parse_step state t =
     (case state of (st, e) \<Rightarrow>
        (case e of
           Value \<Rightarrow> start_value st t
         | Value_or_close \<Rightarrow>
             (case t of RBracket \<Rightarrow> close_array st | _ \<Rightarrow> start_value st t)
         | Key_or_close \<Rightarrow>
             (case t of RBrace \<Rightarrow> close_object st | _ \<Rightarrow> read_key st t)
         | Key \<Rightarrow> read_key st t
         | Colon_next \<Rightarrow> (case t of Colon \<Rightarrow> Some (st, Value) | _ \<Rightarrow> None)
         | Comma_or_close \<Rightarrow>
             (case t of
                Comma \<Rightarrow>
                  (case st of
                     Open_array xs # r \<Rightarrow> Some (st, Value)
                   | Open_object kvs p # r \<Rightarrow> Some (st, Key)
                   | [] \<Rightarrow> None)
              | RBracket \<Rightarrow> close_array st
              | RBrace \<Rightarrow> close_object st
              | _ \<Rightarrow> None)
         | Finished v \<Rightarrow> None))"

fun parse_tokens :: "frame list \<times> expect \<Rightarrow> token list \<Rightarrow> (frame list \<times> expect) option" where
  "parse_tokens state [] = Some state"
| "parse_tokens state (t # ts) =
     (case parse_step state t of
        None \<Rightarrow> None
      | Some state' \<Rightarrow> parse_tokens state' ts)"

definition json_loads :: "string \<Rightarrow> py_error + jval" where
  "json_loads s =
     (case lex_json s of
        None \<Rightarrow> Inl JSONDecodeError
      | Some ts \<Rightarrow>
          (case parse_tokens ([], Value) ts of
             Some ([], Finished v) \<Rightarrow> Inr v
           | _ \<Rightarrow> Inl JSONDecodeError))"

section \<open>The telemetry aggregator (claude\_ai.py, analyze\_temperature\_data)\<close>

text \<open>
  The summary dictionary. \<open>analyze_temperature_data\<close> returns either the empty
  dictionary \<open>{}\<close> or a dictionary with all the keys below, so the value is one of these
  two shapes. The field names carry a prefix where the key (\<open>max\<close>, \<open>min\<close>) is a HOL
  constant.
\<close>

record channel_stats =
  st_avg :: real
  st_max :: real
  st_min :: real
  st_std :: real

record fan_stats =
  fan_avg :: real
  fan_max :: real
  fan_min :: real

record gaming_stats =
  sessions :: nat
  avg_intensity :: real
  gaming_percentage :: real

record summary =
  cpu :: channel_stats
  gpu :: channel_stats
  ssd :: channel_stats
  motherboard :: channel_stats
  fans_cpu_fan :: fan_stats
  fans_gpu_fan :: fan_stats
  fans_case_fan :: fan_stats
  gaming :: gaming_stats
  data_points :: nat
  time_span_hours :: real

datatype analysis = Empty_dict | Summary summary

text \<open>\<open>d.get(key, default)\<close> on a reading.\<close>

definition get_or :: "'a option \<Rightarrow> 'a \<Rightarrow> 'a" where
  "get_or field dflt = (case field of None \<Rightarrow> dflt | Some v \<Rightarrow> v)"

text \<open>\<open>max(xs)\<close> and \<open>min(xs)\<close>; the source calls them on non-empty lists only.\<close>

definition max_of :: "'a::linorder list \<Rightarrow> 'a" where
  "max_of xs = foldl max (hd xs) (tl xs)"

definition min_of :: "'a::linorder list \<Rightarrow> 'a" where
  "min_of xs = foldl min (hd xs) (tl xs)"

text \<open>\<open>_calculate_std\<close>; \<open>variance ** 0.5\<close> is the real power with exponent one half.\<close>

definition calculate_std :: "real list \<Rightarrow> real" where
  "calculate_std vals =
     (if vals = [] then 0
      else (let mean = sum_list vals / real (length vals);
                variance = sum_list (map (\<lambda>x. (x - mean) ^ 2) vals) / real (length vals)
            in variance powr (1 / 2)))"

text \<open>\<open>_calculate_time_span\<close>\<close>

definition calculate_time_span :: "reading list \<Rightarrow> real" where
  "calculate_time_span sensor_data =
     (if length sensor_data < 2 then 0
      else (let timestamps = map (\<lambda>d. get_or (r_timestamp d) 0) sensor_data;
                time_span_seconds = max_of timestamps - min_of timestamps
            in real_of_int time_span_seconds / 3600))"

text \<open>
  The four temperature entries and the three fan entries of the summary are written out
  one by one in the source, each with the same expressions over its own list.
\<close>

definition channel_summary :: "real list \<Rightarrow> channel_stats" where
  "channel_summary temps =
     \<lparr> st_avg = sum_list temps / real (length temps),
       st_max = max_of temps,
       st_min = min_of temps,
       st_std = calculate_std temps \<rparr>"

definition fan_summary :: "real list \<Rightarrow> fan_stats" where
  "fan_summary rpms =
     \<lparr> fan_avg = sum_list rpms / real (length rpms),
       fan_max = max_of rpms,
       fan_min = min_of rpms \<rparr>"

definition analyze_temperature_data :: "reading list \<Rightarrow> py_error + analysis" where
  "analyze_temperature_data sensor_data =
     (if sensor_data = [] then Inr Empty_dict
      else
        (let cpu_temps = map (\<lambda>d. get_or (r_cpu_temp d) 0) sensor_data;
             gpu_temps = map (\<lambda>d. get_or (r_gpu_temp d) 0) sensor_data;
             ssd_temps = map (\<lambda>d. get_or (r_ssd_temp d) 0) sensor_data;
             mb_temps = map (\<lambda>d. get_or (r_motherboard_temp d) 0) sensor_data;
             cpu_fan_rpms = map (\<lambda>d. get_or (r_cpu_fan_rpm d) 0) sensor_data;
             gpu_fan_rpms = map (\<lambda>d. get_or (r_gpu_fan_rpm d) 0) sensor_data;
             case_fan_rpms = map (\<lambda>d. get_or (r_case_fan_rpm d) 0) sensor_data;
             gaming_sessions =
               length (filter (\<lambda>d. get_or (r_gaming_session d) False) sensor_data);
             gaming_intensity_avg =
               sum_list (map (\<lambda>d. get_or (r_gaming_intensity d) 0) sensor_data)
                 / real (length sensor_data)
         in Inr (Summary
              \<lparr> cpu = channel_summary cpu_temps,
                gpu = channel_summary gpu_temps,
                ssd = channel_summary ssd_temps,
                motherboard = channel_summary mb_temps,
                fans_cpu_fan = fan_summary cpu_fan_rpms,
                fans_gpu_fan = fan_summary gpu_fan_rpms,
                fans_case_fan = fan_summary case_fan_rpms,
                gaming =
                  \<lparr> sessions = gaming_sessions,
                    avg_intensity = gaming_intensity_avg,
                    gaming_percentage =
                      (real gaming_sessions / real (length sensor_data)) * 100 \<rparr>,
                data_points = length sensor_data,
                time_span_hours = calculate_time_span sensor_data \<rparr>)))"


section \<open>The fan-curve recommender (claude\_ai.py, class ClaudeAIOptimizer)\<close>

record fan_curves =
  cpu_fan :: "int list"
  gpu_fan :: "int list"
  case_fan :: "int list"

text \<open>The table \<open>base_curves\<close> of \<open>_generate_simulated_curves\<close>, in the order of the source.\<close>

definition base_curves :: "(string \<times> fan_curves) list" where
  "base_curves =
     [(''best_temps'',
         \<lparr> cpu_fan = [800, 1400, 2200, 3600, 4500],
           gpu_fan = [0, 1200, 2400, 3900, 4200],
           case_fan = [600, 1000, 1600, 2400, 2800] \<rparr>),
      (''most_quiet'',
         \<lparr> cpu_fan = [600, 1000, 1600, 2400, 3200],
           gpu_fan = [0, 800, 1800, 3000, 3400],
           case_fan = [400, 700, 1200, 1800, 2200] \<rparr>),
      (''balanced'',
         \<lparr> cpu_fan = [700, 1200, 1900, 3000, 3800],
           gpu_fan = [0, 1000, 2100, 3400, 3800],
           case_fan = [500, 850, 1400, 2100, 2500] \<rparr>)]"

text \<open>The preference tags of the recommender's contract.\<close>

definition known_preference :: "string \<Rightarrow> bool" where
  "known_preference p = (p = ''balanced'' \<or> p = ''best_temps'' \<or> p = ''most_quiet'')"

text \<open>
  The chained lookups \<open>analysis.get(k1, {}).get(k2, 0)\<close> of the source: 0 on the empty
  dictionary, the stored number otherwise.
\<close>

definition get_cpu_avg :: "analysis \<Rightarrow> real" where
  "get_cpu_avg a = (case a of Empty_dict \<Rightarrow> 0 | Summary s \<Rightarrow> st_avg (cpu s))"

definition get_gpu_avg :: "analysis \<Rightarrow> real" where
  "get_gpu_avg a = (case a of Empty_dict \<Rightarrow> 0 | Summary s \<Rightarrow> st_avg (gpu s))"

definition get_gpu_max :: "analysis \<Rightarrow> real" where
  "get_gpu_max a = (case a of Empty_dict \<Rightarrow> 0 | Summary s \<Rightarrow> st_max (gpu s))"

definition get_avg_intensity :: "analysis \<Rightarrow> real" where
  "get_avg_intensity a = (case a of Empty_dict \<Rightarrow> 0 | Summary s \<Rightarrow> avg_intensity (gaming s))"

definition get_gaming_percentage :: "analysis \<Rightarrow> real" where
  "get_gaming_percentage a =
     (case a of Empty_dict \<Rightarrow> 0 | Summary s \<Rightarrow> gaming_percentage (gaming s))"

text \<open>
  The result dictionary of the recommender. The local policy stores lists of numbers under
  \<open>fan_curves\<close>; the remote path stores whatever JSON the answer held. A note of the local
  policy is the number its text shows and the phrase chosen for it.
\<close>

datatype curves_value = Curves fan_curves | Json_curves jval

datatype advice =
    Local_notes "real \<times> string" "real \<times> string" "real \<times> string"
  | Claude_notes jval jval jval jval

record recommendation =
  preference :: string
  curves :: curves_value
  analysis_echo :: analysis
  claude_analysis :: "jval option"
  recommendations :: advice
  timestamp :: string
  ai_generated :: bool

text \<open>
  \<open>_generate_simulated_curves\<close>. \<open>base_curves[preference]\<close> raises \<open>KeyError\<close> for a key
  that is not in the table. \<open>now\<close> is the text of \<open>datetime.now().isoformat()\<close>.
\<close>

definition generate_simulated_curves ::
    "string \<Rightarrow> analysis \<Rightarrow> string \<Rightarrow> py_error + recommendation" where
  "generate_simulated_curves now a pref =
     (case map_of base_curves pref of
        None \<Rightarrow> Inl KeyError
      | Some base \<Rightarrow>
          (let c1 = (if 70 < get_cpu_avg a
                     then base\<lparr> cpu_fan := map (\<lambda>rpm. rpm + 200) (cpu_fan base) \<rparr>
                     else base);
               c2 = (if 75 < get_gpu_avg a
                     then c1\<lparr> gpu_fan := map (\<lambda>rpm. rpm + 200) (gpu_fan c1) \<rparr>
                     else c1);
               c3 = (if 7 / 10 < get_avg_intensity a
                     then c2\<lparr> case_fan := map (\<lambda>rpm. rpm + 150) (case_fan c2) \<rparr>
                     else c2)
           in Inr \<lparr> preference = pref,
                    curves = Curves c3,
                    analysis_echo = a,
                    claude_analysis = None,
                    recommendations =
                      Local_notes
                        (get_cpu_avg a,
                         if 70 < get_cpu_avg a then ''aggressive cooling recommended''
                         else ''current cooling adequate'')
                        (get_gpu_max a,
                         if 80 < get_gpu_max a then ''enhanced cooling suggested''
                         else ''cooling performance good'')
                        (get_gaming_percentage a,
                         if 30 < get_gaming_percentage a then ''optimized for gaming workloads''
                         else ''general usage optimization''),
                    timestamp = now,
                    ai_generated = False \<rparr>))"

text \<open>
  \<open>_build_claude_prompt\<close>. The text itself plays no part in what follows; what matters is
  that the direct subscripts \<open>analysis['cpu']['avg']\<close> raise \<open>KeyError\<close> on the empty
  dictionary. The prompt is kept as the data written into it.
\<close>

datatype prompt = Prompt summary string

definition build_claude_prompt :: "analysis \<Rightarrow> string \<Rightarrow> py_error + prompt" where
  "build_claude_prompt a pref =
     (case a of Empty_dict \<Rightarrow> Inl KeyError | Summary s \<Rightarrow> Inr (Prompt s pref))"

text \<open>
  \<open>_parse_claude_response\<close>: the body of its \<open>try\<close>, then the handler that turns every
  exception into the local policy. A value without a method \<open>find\<close> or \<open>get\<close> raises
  \<open>AttributeError\<close>.
\<close>

definition parse_claude_body ::
    "string \<Rightarrow> jval \<Rightarrow> analysis \<Rightarrow> string \<Rightarrow> py_error + recommendation" where
  "parse_claude_body now response a pref =
     (case response of
        JStr text \<Rightarrow>
          (let json_start = find_char text (CHR ''{'');
               json_end = rfind_char text (CHR ''}'') + 1
           in if json_start \<noteq> - 1 \<and> json_start < json_end then
                (case json_loads (slice text json_start json_end) of
                   Inl e \<Rightarrow> Inl e
                 | Inr claude_data \<Rightarrow>
                     (case claude_data of
                        JObj kvs \<Rightarrow>
                          (case dict_get kvs ''analysis'' (JObj []) of
                             JObj akvs \<Rightarrow>
                               Inr \<lparr> preference = pref,
                                     curves = Json_curves (dict_get kvs ''fan_curves'' (JObj [])),
                                     analysis_echo = a,
                                     claude_analysis = Some (JObj akvs),
                                     recommendations =
                                       Claude_notes
                                         (dict_get akvs ''efficiency'' (JStr ''Analysis complete''))
                                         (dict_get akvs ''recommendations''
                                            (JStr ''Optimized for your usage''))
                                         (dict_get akvs ''temperature_improvement''
                                            (JStr ''Improved cooling expected''))
                                         (dict_get akvs ''noise_impact''
                                            (JStr ''Balanced noise levels'')),
                                     timestamp = now,
                                     ai_generated = True \<rparr>
                           | _ \<Rightarrow> Inl AttributeError)
                      | _ \<Rightarrow> Inl AttributeError))
              else Inl ValueError)
      | _ \<Rightarrow> Inl AttributeError)"

definition parse_claude_response ::
    "string \<Rightarrow> jval \<Rightarrow> analysis \<Rightarrow> string \<Rightarrow> py_error + recommendation" where
  "parse_claude_response now response a pref =
     (case parse_claude_body now response a pref of
        Inr r \<Rightarrow> Inr r
      | Inl e \<Rightarrow> generate_simulated_curves now a pref)"

text \<open>
  What \<open>requests.post\<close> did: it raised, or it returned a response with a status code
  whose \<open>json()\<close> either raises (\<open>None\<close>) or yields a value.
\<close>

datatype http_result = Post_raises | Response int "jval option"

text \<open>The subscripts \<open>result['content'][0]['text']\<close>.\<close>

definition subscript_key :: "jval \<Rightarrow> string \<Rightarrow> py_error + jval" where
  "subscript_key v k =
     (case v of
        JObj kvs \<Rightarrow> (case map_of kvs k of None \<Rightarrow> Inl KeyError | Some x \<Rightarrow> Inr x)
      | _ \<Rightarrow> Inl TypeError)"

definition subscript_0 :: "jval \<Rightarrow> py_error + jval" where
  "subscript_0 v =
     (case v of
        JArr xs \<Rightarrow> (case xs of [] \<Rightarrow> Inl IndexError | x # _ \<Rightarrow> Inr x)
      | JStr s \<Rightarrow> (case s of [] \<Rightarrow> Inl IndexError | c # _ \<Rightarrow> Inr (JStr [c]))
      | JObj kvs \<Rightarrow> Inl KeyError
      | _ \<Rightarrow> Inl TypeError)"

definition response_text :: "jval \<Rightarrow> py_error + jval" where
  "response_text result =
     (case subscript_key result ''content'' of
        Inl e \<Rightarrow> Inl e
      | Inr content \<Rightarrow>
          (case subscript_0 content of
             Inl e \<Rightarrow> Inl e
           | Inr first \<Rightarrow> subscript_key first ''text''))"

text \<open>
  \<open>_generate_claude_curves\<close>: the body of the \<open>try\<close>, then the handler. The request is
  only sent once the prompt is built.
\<close>

definition claude_curves_body ::
    "http_result \<Rightarrow> string \<Rightarrow> analysis \<Rightarrow> string \<Rightarrow> py_error + recommendation" where
  "claude_curves_body remote now a pref =
     (case build_claude_prompt a pref of
        Inl e \<Rightarrow> Inl e
      | Inr p \<Rightarrow>
          (case remote of
             Post_raises \<Rightarrow> Inl RequestException
           | Response status_code body \<Rightarrow>
               if status_code = 200 then
                 (case body of
                    None \<Rightarrow> Inl JSONDecodeError
                  | Some result \<Rightarrow>
                      (case response_text result of
                         Inl e \<Rightarrow> Inl e
                       | Inr claude_response \<Rightarrow>
                           parse_claude_response now claude_response a pref))
               else generate_simulated_curves now a pref))"

definition generate_claude_curves ::
    "http_result \<Rightarrow> string \<Rightarrow> analysis \<Rightarrow> string \<Rightarrow> py_error + recommendation" where
  "generate_claude_curves remote now a pref =
     (case claude_curves_body remote now a pref of
        Inr r \<Rightarrow> Inr r
      | Inl e \<Rightarrow> generate_simulated_curves now a pref)"

text \<open>\<open>generate_fan_curves\<close>; \<open>use_simulation\<close> is the flag set by \<open>__init__\<close>.\<close>

definition generate_fan_curves ::
    "bool \<Rightarrow> http_result \<Rightarrow> string \<Rightarrow> analysis \<Rightarrow> string \<Rightarrow> py_error + recommendation" where
  "generate_fan_curves use_simulation remote now a pref =
     (if use_simulation then generate_simulated_curves now a pref
      else generate_claude_curves remote now a pref)"

text \<open>
  The ways the remote path fails: the request raises, the status is not 200, the body is
  not JSON or lacks \<open>content[0].text\<close>, that entry is no string, the answer text
  holds no JSON object (no opening brace, no closing brace after it, or a text between the
  two that does not decode), or the decoded value cannot be read with \<open>.get\<close>: it is no
  object, or its entry \<open>analysis\<close> is no object.
\<close>

definition no_json_object :: "string \<Rightarrow> bool" where
  "no_json_object text =
     (find_char text (CHR ''{'') = - 1 \<or>
      rfind_char text (CHR ''}'') + 1 \<le> find_char text (CHR ''{'') \<or>
      isl (json_loads (slice text (find_char text (CHR ''{''))
                         (rfind_char text (CHR ''}'') + 1))))"

definition analysis_not_object :: "string \<Rightarrow> bool" where
  "analysis_not_object text =
     (case json_loads (slice text (find_char text (CHR ''{''))
                         (rfind_char text (CHR ''}'') + 1)) of
        Inl e \<Rightarrow> False
      | Inr claude_data \<Rightarrow>
          (case claude_data of
             JObj kvs \<Rightarrow>
               (case dict_get kvs ''analysis'' (JObj []) of
                  JObj akvs \<Rightarrow> False
                | _ \<Rightarrow> True)
           | _ \<Rightarrow> True))"

fun remote_fails :: "http_result \<Rightarrow> bool" where
  "remote_fails Post_raises = True"
| "remote_fails (Response status_code body) =
     (status_code \<noteq> 200 \<or>
      (case body of
         None \<Rightarrow> True
       | Some result \<Rightarrow>
           (case response_text result of
              Inl e \<Rightarrow> True
            | Inr (JStr text) \<Rightarrow> no_json_object text \<or> analysis_not_object text
            | Inr other \<Rightarrow> True)))"

text \<open>A structurally valid set of curves: five setpoints per fan, none negative.\<close>

definition valid_curve :: "int list \<Rightarrow> bool" where
  "valid_curve c = (length c = 5 \<and> list_all (\<lambda>rpm. 0 \<le> rpm) c)"

definition valid_recommendation :: "recommendation \<Rightarrow> bool" where
  "valid_recommendation r =
     (case curves r of
        Curves c \<Rightarrow> valid_curve (cpu_fan c) \<and> valid_curve (gpu_fan c) \<and> valid_curve (case_fan c)
      | Json_curves j \<Rightarrow> False)"

section \<open>The dashboard (app.py)\<close>

text \<open>
  \<open>generate_ai_fan_curves\<close>. The result is the dictionary \<open>{"error": ...}\<close> or a
  recommendation. \<open>sensor_data_sample\<close> is \<open>None\<close> or a list; \<open>sensor_history\<close> is the
  module's global list, here with its entries read as readings.
\<close>

datatype ai_result = Error_dict string | Recommended recommendation

definition last_n :: "nat \<Rightarrow> 'a list \<Rightarrow> 'a list" where
  "last_n n xs = drop (length xs - n) xs"

definition generate_ai_fan_curves ::
    "bool \<Rightarrow> http_result \<Rightarrow> string \<Rightarrow> reading list \<Rightarrow> string \<Rightarrow> reading list option
      \<Rightarrow> py_error + ai_result" where
  "generate_ai_fan_curves use_simulation remote now sensor_history pref sensor_data_sample =
     (let recent = (if 100 \<le> length sensor_history then last_n 100 sensor_history
                    else sensor_history);
          sample = (case sensor_data_sample of
                      None \<Rightarrow> recent
                    | Some [] \<Rightarrow> recent
                    | Some (d # ds) \<Rightarrow> d # ds)
      in if sample = [] then Inr (Error_dict ''No data available for analysis'')
         else
           (case analyze_temperature_data sample of
              Inl e \<Rightarrow> Inl e
            | Inr a \<Rightarrow>
                (case generate_fan_curves use_simulation remote now a pref of
                   Inl e \<Rightarrow> Inl e
                 | Inr r \<Rightarrow> Inr (Recommended r))))"

text \<open>
  \<open>load_sensor_data\<close> and \<open>load_sensor_data_fallback\<close>. The two globals the function
  assigns are the fields of the state. The file is what \<open>open\<close> and \<open>read\<close> give: an
  exception or the content; the fallback reads the same file again.
\<close>

record dashboard =
  sensor_history :: "jval list"
  current_sensor_data :: jval

definition fallback_line :: "string \<Rightarrow> jval list" where
  "fallback_line raw =
     (let line = strip raw
      in if startswith line ''{'' \<and> endswith line ''}'' then
           (case json_loads line of Inl e \<Rightarrow> [] | Inr obj \<Rightarrow> [obj])
         else if startswith line ''{'' \<and> endswith line '','' then
           (case json_loads (butlast line) of Inl e \<Rightarrow> [] | Inr obj \<Rightarrow> [obj])
         else [])"

definition load_sensor_data_fallback :: "py_error + string \<Rightarrow> jval list" where
  "load_sensor_data_fallback file =
     (case file of
        Inl e \<Rightarrow> []
      | Inr content \<Rightarrow> concat (map fallback_line (split_lines content)))"

text \<open>The text handed to \<open>json.loads\<close>: the stripped content, closed if it is not.\<close>

definition repair_content :: "string \<Rightarrow> string" where
  "repair_content raw =
     (let content = strip raw
      in if content \<noteq> [] \<and> \<not> endswith content '']'' then
           (if endswith content '','' then butlast content else content) @ [CHR 0x0A, CHR '']'']
         else content)"

text \<open>
  A text that ends in \<open>]\<close> decodes to an array or not at all; for any other decoded value
  the list operations that follow are taken to raise, which the last handler catches.
\<close>

definition load_sensor_data :: "py_error + string \<Rightarrow> dashboard \<Rightarrow> dashboard" where
  "load_sensor_data file st =
     (case file of
        Inl e \<Rightarrow> \<lparr> sensor_history = [], current_sensor_data = JObj [] \<rparr>
      | Inr raw \<Rightarrow>
          (let content = repair_content raw
           in case (if content \<noteq> [] then json_loads content else Inr (JArr [])) of
                Inr (JArr data) \<Rightarrow>
                  (let history = (if 1000 < length data then last_n 1000 data else data)
                   in \<lparr> sensor_history = history,
                        current_sensor_data =
                          (if history \<noteq> [] then last history else current_sensor_data st) \<rparr>)
              | Inr other \<Rightarrow> \<lparr> sensor_history = [], current_sensor_data = JObj [] \<rparr>
              | Inl e \<Rightarrow>
                  (let history = load_sensor_data_fallback file
                   in \<lparr> sensor_history = history,
                        current_sensor_data =
                          (if history \<noteq> [] then last history else JObj []) \<rparr>)))"

text \<open>The truncated log of the scenario: \<open>[{"a":1},{"b":2},\<close>\<close>

definition truncated_log :: string where
  "truncated_log =
     [CHR ''['', CHR ''{'', CHR 0x22, CHR ''a'', CHR 0x22, CHR '':'', CHR ''1'', CHR ''}'',
      CHR '','', CHR ''{'', CHR 0x22, CHR ''b'', CHR 0x22, CHR '':'', CHR ''2'', CHR ''}'',
      CHR '','']"

text \<open>
  The reading of the scenario for the local policy: CPU temperature 80 during a gaming
  session. \<open>hot_summary\<close> is the summary of that one reading.
\<close>

definition hot_reading :: reading where
  "hot_reading =
     \<lparr> r_timestamp = Some 1750263292,
       r_device_id = Some CLIENT_ID,
       r_cpu_temp = Some 80,
       r_gpu_temp = Some 60,
       r_ssd_temp = Some 40,
       r_motherboard_temp = Some 38,
       r_cpu_fan_rpm = Some 3000,
       r_gpu_fan_rpm = Some 2600,
       r_case_fan_rpm = Some 1400,
       r_gaming_session = Some True,
       r_gaming_intensity = Some (8 / 10) \<rparr>"

definition hot_summary :: summary where
  "hot_summary =
     \<lparr> cpu = \<lparr> st_avg = 80, st_max = 80, st_min = 80, st_std = 0 \<rparr>,
       gpu = \<lparr> st_avg = 60, st_max = 60, st_min = 60, st_std = 0 \<rparr>,
       ssd = \<lparr> st_avg = 40, st_max = 40, st_min = 40, st_std = 0 \<rparr>,
       motherboard = \<lparr> st_avg = 38, st_max = 38, st_min = 38, st_std = 0 \<rparr>,
       fans_cpu_fan = \<lparr> fan_avg = 3000, fan_max = 3000, fan_min = 3000 \<rparr>,
       fans_gpu_fan = \<lparr> fan_avg = 2600, fan_max = 2600, fan_min = 2600 \<rparr>,
       fans_case_fan = \<lparr> fan_avg = 1400, fan_max = 1400, fan_min = 1400 \<rparr>,
       gaming = \<lparr> sessions = 1, avg_intensity = 8 / 10, gaming_percentage = 100 \<rparr>,
       data_points = 1,
       time_span_hours = 0 \<rparr>"

section \<open>Properties of the simulator\<close>

subsection \<open>Bounds after a tick\<close>

lemma simulate_shape:
  "\<exists>a b c e. simulate_temperature_changes d now s =
     s\<lparr> cpu_temp := max 25 (min (COMPONENT_MAX_TEMPS CPU) a),
        gpu_temp := max 25 (min (COMPONENT_MAX_TEMPS GPU) b),
        ssd_temp := max 20 (min (COMPONENT_MAX_TEMPS SSD) c),
        motherboard_temp := max 20 (min (COMPONENT_MAX_TEMPS Motherboard) e) \<rparr>"
  unfolding simulate_temperature_changes_def Let_def by blast

lemma fans_shape:
  "\<exists>a b c. calculate_fan_speeds d s =
     s\<lparr> cpu_fan_rpm := max 0 (min 4800 a),
        gpu_fan_rpm := max 0 (min 4200 b),
        case_fan_rpm := max 0 (min 2800 c) \<rparr>"
  unfolding calculate_fan_speeds_def Let_def by blast

lemma temps_after_simulate:
  "component_min_temp c \<le> temp_of (simulate_temperature_changes d now s) c \<and>
   temp_of (simulate_temperature_changes d now s) c \<le> COMPONENT_MAX_TEMPS c"
  using simulate_shape [of d now s] by (cases c) auto

lemma temps_kept_by_fans: "temp_of (calculate_fan_speeds d s) c = temp_of s c"
  using fans_shape [of d s] by (cases c) auto

lemma rpm_after_fans:
  "0 \<le> rpm_of (calculate_fan_speeds d s) f \<and>
   rpm_of (calculate_fan_speeds d s) f \<le> fan_max_rpm f"
  using fans_shape [of d s] by (cases f) auto

text \<open>
  C1. After one tick (update\_gaming\_session, simulate\_temperature\_changes,
  calculate\_fan\_speeds) from any state and for any values of the random draws and of the
  clock, every temperature lies between the lower bound of its clamp and its configured
  maximum, and every fan speed lies between 0 and the maximum of its fan (4800, 4200, 2800).
  No assumption on the state before the tick is needed, so the statement covers every
  reachable state.
\<close>

theorem tick_keeps_bounds:
  "component_min_temp c \<le> temp_of (tick d now s) c \<and>
   temp_of (tick d now s) c \<le> COMPONENT_MAX_TEMPS c \<and>
   0 \<le> rpm_of (tick d now s) f \<and>
   rpm_of (tick d now s) f \<le> fan_max_rpm f"
  unfolding tick_def
  by (simp add: temps_kept_by_fans temps_after_simulate rpm_after_fans)

subsection \<open>The gaming session state machine\<close>

lemma gaming_kept_by_simulate:
  "gaming_session (simulate_temperature_changes d now s) = gaming_session s"
  "gaming_intensity (simulate_temperature_changes d now s) = gaming_intensity s"
  "session_time (simulate_temperature_changes d now s) = session_time s"
  "cooling_phase (simulate_temperature_changes d now s) = cooling_phase s"
  using simulate_shape [of d now s] by auto

lemma gaming_kept_by_fans:
  "gaming_session (calculate_fan_speeds d s) = gaming_session s"
  "gaming_intensity (calculate_fan_speeds d s) = gaming_intensity s"
  "session_time (calculate_fan_speeds d s) = session_time s"
  "cooling_phase (calculate_fan_speeds d s) = cooling_phase s"
  using fans_shape [of d s] by auto

lemma gaming_of_tick:
  "gaming_session (tick d now s) = gaming_session (update_gaming_session d s)"
  "gaming_intensity (tick d now s) = gaming_intensity (update_gaming_session d s)"
  "session_time (tick d now s) = session_time (update_gaming_session d s)"
  "cooling_phase (tick d now s) = cooling_phase (update_gaming_session d s)"
  by (simp_all add: tick_def gaming_kept_by_simulate gaming_kept_by_fans)

lemma update_keeps_idle_zero:
  assumes "\<not> gaming_session s \<longrightarrow> gaming_intensity s = 0"
  shows "\<not> gaming_session (update_gaming_session d s) \<longrightarrow>
         gaming_intensity (update_gaming_session d s) = 0"
  using assms by (auto simp add: update_gaming_session_def Let_def max_def)

lemma reachable_idle_zero:
  "reachable s \<Longrightarrow> \<not> gaming_session s \<longrightarrow> gaming_intensity s = 0"
proof (induction rule: reachable.induct)
  case reachable_init
  show ?case by (simp add: init_simulator_def)
next
  case (reachable_tick s d now)
  then show ?case using update_keeps_idle_zero [of s d] by (simp add: gaming_of_tick)
qed

lemma session_start:
  assumes "\<not> gaming_session s"
  shows "gaming_session (update_gaming_session d s) \<longleftrightarrow> start_roll d < GAMING_SESSION_START_PROBABILITY"
    and "gaming_session (update_gaming_session d s) \<Longrightarrow>
           gaming_intensity (update_gaming_session d s) = 1 / 10 \<and>
           session_time (update_gaming_session d s) = 0 \<and> \<not> cooling_phase (update_gaming_session d s)"
  using assms by (auto simp add: update_gaming_session_def)

text \<open>
  C5. In every state the loop reaches, the intensity is 0 whenever no session is active.
  When \<open>update_gaming_session\<close> takes an idle state to an active one, it sets the
  intensity to 0.1 (strictly positive) and the session time to 0; this happens exactly
  when the start roll is below the start probability.
\<close>

theorem idle_intensity_zero:
  assumes "reachable s"
  shows "(\<not> gaming_session s \<longrightarrow> gaming_intensity s = 0) \<and>
         (\<not> gaming_session s \<and> gaming_session (update_gaming_session d s) \<longrightarrow>
            gaming_intensity (update_gaming_session d s) = 1 / 10 \<and>
            0 < gaming_intensity (update_gaming_session d s) \<and>
            session_time (update_gaming_session d s) = 0) \<and>
         (\<not> gaming_session s \<and> start_roll d < GAMING_SESSION_START_PROBABILITY \<longrightarrow>
            gaming_session (update_gaming_session d s))"
  using reachable_idle_zero [OF assms] session_start [of s d] by auto

theorem idle_intensity_zero_witness:
  "reachable init_simulator \<and> \<not> gaming_session init_simulator \<and>
   gaming_intensity init_simulator = 0 \<and>
   gaming_session (update_gaming_session (quiet_draws 0 0) init_simulator) \<and>
   gaming_intensity (update_gaming_session (quiet_draws 0 0) init_simulator) = 1 / 10 \<and>
   session_time (update_gaming_session (quiet_draws 0 0) init_simulator) = 0"
proof -
  have r: "reachable init_simulator" by (rule reachable_init)
  have i: "\<not> gaming_session init_simulator" by (simp add: init_simulator_def)
  have st: "start_roll (quiet_draws 0 0) < GAMING_SESSION_START_PROBABILITY"
    by (simp add: quiet_draws_def GAMING_SESSION_START_PROBABILITY_def)
  show ?thesis
    using idle_intensity_zero [OF r, of "quiet_draws 0 0"] r i st by simp
qed


lemma warmup_intensity_value:
  assumes "gaming_session s" "\<not> cooling_phase s" "session_time s + 1 \<le> GAMING_WARMUP_TIME"
  shows "gaming_intensity (update_gaming_session d s) =
           min (9 / 10)
             (real_of_int (session_time s + 1) / real_of_int GAMING_WARMUP_TIME * (7 / 10)
               + warmup_jitter d)"
    and "gaming_intensity (update_gaming_session d s) \<le> 9 / 10"
proof -
  show e: "gaming_intensity (update_gaming_session d s) =
           min (9 / 10)
             (real_of_int (session_time s + 1) / real_of_int GAMING_WARMUP_TIME * (7 / 10)
               + warmup_jitter d)"
    using assms by (simp add: update_gaming_session_def Let_def)
  show "gaming_intensity (update_gaming_session d s) \<le> 9 / 10"
    unfolding e by (rule min.cobounded1)
qed

lemma valid_quiet_draws:
  "0 \<le> roll \<Longrightarrow> roll < 1 \<Longrightarrow> - (1 / 10) \<le> jitter \<Longrightarrow> jitter \<le> 1 / 10 \<Longrightarrow>
   valid_draws (quiet_draws roll jitter)"
  by (simp add: valid_draws_def quiet_draws_def)

lemma started_state:
  "gaming_session (tick (quiet_draws 0 0) 0 init_simulator)"
  "\<not> cooling_phase (tick (quiet_draws 0 0) 0 init_simulator)"
  "session_time (tick (quiet_draws 0 0) 0 init_simulator) = 0"
  "gaming_intensity (tick (quiet_draws 0 0) 0 init_simulator) = 1 / 10"
  by (simp_all add: gaming_of_tick update_gaming_session_def init_simulator_def quiet_draws_def
      GAMING_SESSION_START_PROBABILITY_def)

text \<open>
  C4, evaluated at a state the loop reaches. One tick after start-up with a start roll of 0
  a session is active, not cooling, with session time 0. The next call of
  \<open>update_gaming_session\<close> is in the warm-up branch (session time 1 of 30); with the
  jitter \<open>-0.05\<close>, inside the range of \<open>random.uniform(-0.1, 0.1)\<close>, it stores the
  intensity \<open>0.7 / 30 - 0.05 = -8/300\<close>, which is below 0: the warm-up branch applies
  only the upper bound 0.9.
\<close>

theorem warmup_intensity_negative:
  "reachable (tick (quiet_draws 0 0) 0 init_simulator) \<and>
   valid_draws (quiet_draws (1 / 2) (- (1 / 20))) \<and>
   gaming_session (tick (quiet_draws 0 0) 0 init_simulator) \<and>
   \<not> cooling_phase (tick (quiet_draws 0 0) 0 init_simulator) \<and>
   session_time (tick (quiet_draws 0 0) 0 init_simulator) + 1 \<le> GAMING_WARMUP_TIME \<and>
   gaming_intensity
     (update_gaming_session (quiet_draws (1 / 2) (- (1 / 20)))
        (tick (quiet_draws 0 0) 0 init_simulator)) = - (8 / 300) \<and>
   gaming_intensity
     (update_gaming_session (quiet_draws (1 / 2) (- (1 / 20)))
        (tick (quiet_draws 0 0) 0 init_simulator)) < 0"
proof -
  let ?s = "tick (quiet_draws 0 0) 0 init_simulator"
  let ?d = "quiet_draws (1 / 2) (- (1 / 20))"
  have r: "reachable ?s"
    by (rule reachable_tick [OF reachable_init]) (simp add: valid_quiet_draws)
  have v: "valid_draws ?d" by (simp add: valid_quiet_draws)
  have w: "session_time ?s + 1 \<le> GAMING_WARMUP_TIME"
    by (simp add: started_state GAMING_WARMUP_TIME_def)
  have "gaming_intensity (update_gaming_session ?d ?s) =
          min (9 / 10) (real_of_int (session_time ?s + 1) / real_of_int GAMING_WARMUP_TIME * (7 / 10)
               + warmup_jitter ?d)"
    by (rule warmup_intensity_value(1) [OF started_state(1) started_state(2) w])
  also have "\<dots> = min (9 / 10) (1 / 30 * (7 / 10) + warmup_jitter ?d)"
    by (simp add: started_state GAMING_WARMUP_TIME_def)
  also have "\<dots> = - (8 / 300)"
    by (simp add: quiet_draws_def)
  finally have g: "gaming_intensity (update_gaming_session ?d ?s) = - (8 / 300)" .
  show ?thesis using r v w g by (simp add: started_state)
qed

subsection \<open>Runs of the loop\<close>

lemma length_run_ticks: "length (run_ticks s ds cs) = min (length ds) (length cs)"
  by (induction s ds cs rule: run_ticks.induct) (simp_all add: Let_def)

text \<open>
  C2 as stated fails: the readings also depend on the wall clock. Two runs of one tick from
  the initial state with the same draws, one at clock value 0 and one at clock value 1,
  produce different readings (the timestamps differ).
\<close>

theorem runs_differ_with_clock:
  "run_ticks init_simulator [quiet_draws (1 / 2) 0] [\<lparr> sim_time = 0, read_time = 0 \<rparr>] \<noteq>
   run_ticks init_simulator [quiet_draws (1 / 2) 0] [\<lparr> sim_time = 1, read_time = 1 \<rparr>]"
proof
  assume "run_ticks init_simulator [quiet_draws (1 / 2) 0] [\<lparr> sim_time = 0, read_time = 0 \<rparr>] =
   run_ticks init_simulator [quiet_draws (1 / 2) 0] [\<lparr> sim_time = 1, read_time = 1 \<rparr>]"
  then have "map r_timestamp (run_ticks init_simulator [quiet_draws (1 / 2) 0] [\<lparr> sim_time = 0, read_time = 0 \<rparr>]) =
   map r_timestamp (run_ticks init_simulator [quiet_draws (1 / 2) 0] [\<lparr> sim_time = 1, read_time = 1 \<rparr>])"
    by (rule arg_cong)
  then show False by (simp add: Let_def get_sensor_data_def py_int_def)
qed

text \<open>
  The session fields of the readings are reproducible from the draws alone: the state
  machine reads only its own fields and the draws, never the clock or the temperatures.
\<close>

lemma update_reads_session_fields:
  assumes "session_fields s = session_fields s'"
  shows "session_fields (update_gaming_session d s) = session_fields (update_gaming_session d s')"
  using assms by (simp add: session_fields_def update_gaming_session_def Let_def)

lemma session_fields_tick:
  "session_fields (tick d now s) = session_fields (update_gaming_session d s)"
  by (simp add: session_fields_def gaming_of_tick)

lemma session_readings_ignore_clock:
  assumes "session_fields s = session_fields s'" and "length cs = length cs'"
  shows "map (\<lambda>r. (r_gaming_session r, r_gaming_intensity r)) (run_ticks s ds cs) =
         map (\<lambda>r. (r_gaming_session r, r_gaming_intensity r)) (run_ticks s' ds cs')"
  using assms
proof (induction ds arbitrary: s s' cs cs')
  case Nil
  show ?case by simp
next
  case (Cons d ds)
  show ?case
  proof (cases cs)
    case Nil
    with Cons.prems show ?thesis by simp
  next
    case c1: (Cons c cs1)
    with Cons.prems obtain c' cs1' where c2: "cs' = c' # cs1'" "length cs1 = length cs1'"
      by (cases cs') auto
    have f: "session_fields (tick d (sim_time c) s) = session_fields (tick d (sim_time c') s')"
      using update_reads_session_fields [OF Cons.prems(1)] by (simp add: session_fields_tick)
    then have g:
      "gaming_session (tick d (sim_time c) s) = gaming_session (tick d (sim_time c') s')"
      "gaming_intensity (tick d (sim_time c) s) = gaming_intensity (tick d (sim_time c') s')"
      by (simp_all add: session_fields_def)
    show ?thesis
      using Cons.IH [OF f c2(2)] g by (simp add: c1 c2 Let_def get_sensor_data_def)
  qed
qed

text \<open>
  The timestamp of a reading is the integer part of the clock value read by
  \<open>get_sensor_data\<close> in its iteration, whatever the state and the draws.
\<close>

lemma timestamps_of_run:
  "map r_timestamp (run_ticks s ds cs) =
     map (\<lambda>c. Some (py_int (read_time c))) (take (length ds) cs)"
  by (induction s ds cs rule: run_ticks.induct) (simp_all add: Let_def get_sensor_data_def)

text \<open>
  The clock value read by \<open>get_sensor_data\<close> reaches the timestamp only; the clock value
  read by \<open>simulate_temperature_changes\<close> reaches the state.
\<close>

lemma get_sensor_data_without_timestamp:
  "without_timestamp (get_sensor_data now s) = without_timestamp (get_sensor_data now' s)"
  by (simp add: without_timestamp_def get_sensor_data_def)

lemma readings_ignore_read_time:
  assumes "map sim_time cs = map sim_time cs'"
  shows "map without_timestamp (run_ticks s ds cs) = map without_timestamp (run_ticks s ds cs')"
  using assms
proof (induction ds arbitrary: s cs cs')
  case Nil
  show ?case by simp
next
  case (Cons d ds)
  show ?case
  proof (cases cs)
    case Nil
    with Cons.prems show ?thesis by simp
  next
    case c1: (Cons c cs1)
    with Cons.prems obtain c' cs1' where c2: "cs' = c' # cs1'" "sim_time c = sim_time c'"
        "map sim_time cs1 = map sim_time cs1'"
      by (cases cs') auto
    show ?thesis
      using Cons.IH [OF c2(3), of "tick d (sim_time c') s"]
            get_sensor_data_without_timestamp
              [of "read_time c" "tick d (sim_time c') s" "read_time c'"]
      by (simp add: c1 c2 Let_def)
  qed
qed

lemma reading_eq_iff:
  "r = r' \<longleftrightarrow> without_timestamp r = without_timestamp r' \<and> r_timestamp r = r_timestamp r'"
  by (cases r, cases r') (auto simp add: without_timestamp_def)

lemma readings_eq_iff:
  "rs = rs' \<longleftrightarrow>
     map without_timestamp rs = map without_timestamp rs' \<and>
     map r_timestamp rs = map r_timestamp rs'"
proof (induction rs arbitrary: rs')
  case Nil
  show ?case by auto
next
  case (Cons r rs)
  show ?case
  proof (cases rs')
    case Nil
    then show ?thesis by simp
  next
    case (Cons r' rs1)
    then show ?thesis using Cons.IH [of rs1] reading_eq_iff [of r r'] by auto
  qed
qed

lemma map_Some_eq_iff:
  "map (\<lambda>c. Some (f c)) xs = map (\<lambda>c. Some (f c)) ys \<longleftrightarrow> map f xs = map f ys"
proof -
  have "map (\<lambda>c. Some (f c)) xs = map Some (map f xs)"
       "map (\<lambda>c. Some (f c)) ys = map Some (map f ys)"
    by simp_all
  then show ?thesis by (simp only: inj_map_eq_map [OF inj_Some])
qed

text \<open>
  C2, amended. The code never seeds the generator and reads the wall clock twice per
  iteration, so equal draws alone do not give equal readings. For two runs from the same
  state with the same draws, over clocks of the same length:
  the fields \<open>gaming_session\<close> and \<open>gaming_intensity\<close> of the readings agree whatever the
  clocks show; the timestamp of each reading is \<open>int(time.time())\<close> of its
  \<open>get_sensor_data\<close> call; and when the clock values read by
  \<open>simulate_temperature_changes\<close> agree, the readings agree on every field other than
  the timestamp, so that the two sequences are identical, field for field, exactly when
  their timestamps are.
\<close>

theorem runs_agree_up_to_clock:
  assumes "length cs = length cs'"
  shows "map (\<lambda>r. (r_gaming_session r, r_gaming_intensity r)) (run_ticks s ds cs) =
           map (\<lambda>r. (r_gaming_session r, r_gaming_intensity r)) (run_ticks s ds cs') \<and>
         map r_timestamp (run_ticks s ds cs) =
           map (\<lambda>c. Some (py_int (read_time c))) (take (length ds) cs) \<and>
         (map sim_time cs = map sim_time cs' \<longrightarrow>
            map without_timestamp (run_ticks s ds cs) =
              map without_timestamp (run_ticks s ds cs') \<and>
            (run_ticks s ds cs = run_ticks s ds cs' \<longleftrightarrow>
               map (\<lambda>c. py_int (read_time c)) (take (length ds) cs) =
               map (\<lambda>c. py_int (read_time c)) (take (length ds) cs')))"
proof -
  have session:
    "map (\<lambda>r. (r_gaming_session r, r_gaming_intensity r)) (run_ticks s ds cs) =
     map (\<lambda>r. (r_gaming_session r, r_gaming_intensity r)) (run_ticks s ds cs')"
    using assms by (rule session_readings_ignore_clock [OF refl])
  have rest: "map sim_time cs = map sim_time cs' \<longrightarrow>
              (run_ticks s ds cs = run_ticks s ds cs' \<longleftrightarrow>
               map (\<lambda>c. py_int (read_time c)) (take (length ds) cs) =
               map (\<lambda>c. py_int (read_time c)) (take (length ds) cs'))"
  proof
    assume same: "map sim_time cs = map sim_time cs'"
    have "run_ticks s ds cs = run_ticks s ds cs' \<longleftrightarrow>
            map r_timestamp (run_ticks s ds cs) = map r_timestamp (run_ticks s ds cs')"
      using readings_eq_iff [of "run_ticks s ds cs" "run_ticks s ds cs'"]
            readings_ignore_read_time [OF same, of s ds]
      by simp
    then show "run_ticks s ds cs = run_ticks s ds cs' \<longleftrightarrow>
               map (\<lambda>c. py_int (read_time c)) (take (length ds) cs) =
               map (\<lambda>c. py_int (read_time c)) (take (length ds) cs')"
      by (simp only: timestamps_of_run map_Some_eq_iff)
  qed
  show ?thesis
    using session timestamps_of_run [of s ds cs] readings_ignore_read_time [of cs cs' s ds] rest
    by blast
qed

theorem runs_agree_up_to_clock_witness:
  "map (\<lambda>r. (r_gaming_session r, r_gaming_intensity r))
     (run_ticks init_simulator [quiet_draws (1 / 2) 0] [\<lparr> sim_time = 0, read_time = 0 \<rparr>]) =
   map (\<lambda>r. (r_gaming_session r, r_gaming_intensity r))
     (run_ticks init_simulator [quiet_draws (1 / 2) 0] [\<lparr> sim_time = 7, read_time = 1 / 2 \<rparr>]) \<and>
   map r_timestamp
     (run_ticks init_simulator [quiet_draws (1 / 2) 0] [\<lparr> sim_time = 0, read_time = 3 / 2 \<rparr>]) =
     [Some 1] \<and>
   run_ticks init_simulator [quiet_draws (1 / 2) 0] [\<lparr> sim_time = 0, read_time = 0 \<rparr>] =
   run_ticks init_simulator [quiet_draws (1 / 2) 0] [\<lparr> sim_time = 0, read_time = 1 / 2 \<rparr>]"
proof -
  have a: "map (\<lambda>r. (r_gaming_session r, r_gaming_intensity r))
     (run_ticks init_simulator [quiet_draws (1 / 2) 0] [\<lparr> sim_time = 0, read_time = 0 \<rparr>]) =
   map (\<lambda>r. (r_gaming_session r, r_gaming_intensity r))
     (run_ticks init_simulator [quiet_draws (1 / 2) 0] [\<lparr> sim_time = 7, read_time = 1 / 2 \<rparr>])"
    using runs_agree_up_to_clock
      [of "[\<lparr> sim_time = 0, read_time = 0 \<rparr>]" "[\<lparr> sim_time = 7, read_time = 1 / 2 \<rparr>]"
          init_simulator "[quiet_draws (1 / 2) 0]"]
    by simp
  have b: "map r_timestamp
     (run_ticks init_simulator [quiet_draws (1 / 2) 0] [\<lparr> sim_time = 0, read_time = 3 / 2 \<rparr>]) =
     [Some 1]"
    using runs_agree_up_to_clock
      [of "[\<lparr> sim_time = 0, read_time = 3 / 2 \<rparr>]" "[\<lparr> sim_time = 0, read_time = 3 / 2 \<rparr>]"
          init_simulator "[quiet_draws (1 / 2) 0]"]
    by (simp add: py_int_def)
  have c: "run_ticks init_simulator [quiet_draws (1 / 2) 0] [\<lparr> sim_time = 0, read_time = 0 \<rparr>] =
   run_ticks init_simulator [quiet_draws (1 / 2) 0] [\<lparr> sim_time = 0, read_time = 1 / 2 \<rparr>]"
    using runs_agree_up_to_clock
      [of "[\<lparr> sim_time = 0, read_time = 0 \<rparr>]" "[\<lparr> sim_time = 0, read_time = 1 / 2 \<rparr>]"
          init_simulator "[quiet_draws (1 / 2) 0]"]
    by (simp add: py_int_def)
  from a b c show ?thesis by blast
qed

section \<open>Properties of the aggregator\<close>

lemma analyze_nonempty:
  assumes "sensor_data \<noteq> []"
  shows "\<exists>s. analyze_temperature_data sensor_data = Inr (Summary s) \<and>
             cpu s = channel_summary (map (\<lambda>d. get_or (r_cpu_temp d) 0) sensor_data) \<and>
             gpu s = channel_summary (map (\<lambda>d. get_or (r_gpu_temp d) 0) sensor_data) \<and>
             ssd s = channel_summary (map (\<lambda>d. get_or (r_ssd_temp d) 0) sensor_data) \<and>
             motherboard s =
               channel_summary (map (\<lambda>d. get_or (r_motherboard_temp d) 0) sensor_data)"
  using assms unfolding analyze_temperature_data_def Let_def by simp







text \<open>
  C3 as stated fails: on the empty list the aggregator raises nothing, it returns a value.
\<close>

theorem analyze_empty_returns_normally:
  "\<not> isl (analyze_temperature_data [])"
  by (simp add: analyze_temperature_data_def)

text \<open>
  C3, amended. On the empty list \<open>analyze_temperature_data\<close> returns the empty dictionary
  \<open>{}\<close>. The signal for missing data comes from the caller \<open>generate_ai_fan_curves\<close>,
  which on an empty sample and an empty history returns the dictionary
  \<open>{"error": "No data available for analysis"}\<close> without calling the aggregator.
\<close>

theorem analyze_empty_is_empty_dict:
  "analyze_temperature_data [] = Inr Empty_dict \<and>
   generate_ai_fan_curves use_simulation remote now [] pref None =
     Inr (Error_dict ''No data available for analysis'') \<and>
   generate_ai_fan_curves use_simulation remote now [] pref (Some []) =
     Inr (Error_dict ''No data available for analysis'')"
  by (simp add: analyze_temperature_data_def generate_ai_fan_curves_def)

text \<open>The summary of the one hot reading, computed by the aggregator.\<close>

lemma analyze_hot_reading:
  "analyze_temperature_data [hot_reading] = Inr (Summary hot_summary)"
  by (simp add: analyze_temperature_data_def hot_reading_def hot_summary_def channel_summary_def
      fan_summary_def calculate_std_def calculate_time_span_def max_of_def min_of_def get_or_def
      Let_def)

section \<open>Properties of the recommender\<close>

lemma known_preference_lookup:
  "known_preference pref \<longleftrightarrow> map_of base_curves pref \<noteq> None"
  by (simp add: known_preference_def base_curves_def)

lemma base_curves_valid:
  assumes "map_of base_curves pref = Some base"
  shows "valid_curve (cpu_fan base) \<and> valid_curve (gpu_fan base) \<and> valid_curve (case_fan base)"
  using assms by (auto simp add: base_curves_def valid_curve_def split: if_splits)

lemma valid_curve_raised:
  "valid_curve c \<Longrightarrow> 0 \<le> k \<Longrightarrow> valid_curve (map (\<lambda>rpm. rpm + k) c)"
  by (induction c) (auto simp add: valid_curve_def list_all_iff)

lemma raised_above: "list_all2 (\<lambda>x b. b + k \<le> x) (map (\<lambda>rpm. rpm + (k::int)) c) c"
  by (induction c) simp_all

text \<open>The curves the local policy returns, fan by fan.\<close>

lemma simulated_curves_result:
  assumes "map_of base_curves pref = Some base"
  shows "\<exists>r c. generate_simulated_curves now a pref = Inr r \<and> curves r = Curves c \<and>
           \<not> ai_generated r \<and> preference r = pref \<and> analysis_echo r = a \<and>
           cpu_fan c = (if 70 < get_cpu_avg a then map (\<lambda>rpm. rpm + 200) (cpu_fan base)
                        else cpu_fan base) \<and>
           gpu_fan c = (if 75 < get_gpu_avg a then map (\<lambda>rpm. rpm + 200) (gpu_fan base)
                        else gpu_fan base) \<and>
           case_fan c = (if 7 / 10 < get_avg_intensity a
                         then map (\<lambda>rpm. rpm + 150) (case_fan base) else case_fan base)"
  using assms unfolding generate_simulated_curves_def Let_def by simp

lemma simulated_curves_valid:
  assumes "known_preference pref"
  shows "\<exists>r. generate_simulated_curves now a pref = Inr r \<and> valid_recommendation r \<and>
             \<not> ai_generated r"
proof -
  obtain base where b: "map_of base_curves pref = Some base"
    using assms by (auto simp add: known_preference_lookup)
  obtain r c where r: "generate_simulated_curves now a pref = Inr r" "curves r = Curves c"
    "\<not> ai_generated r"
    "cpu_fan c = (if 70 < get_cpu_avg a then map (\<lambda>rpm. rpm + 200) (cpu_fan base)
                        else cpu_fan base)"
    "gpu_fan c = (if 75 < get_gpu_avg a then map (\<lambda>rpm. rpm + 200) (gpu_fan base)
                        else gpu_fan base)"
    "case_fan c = (if 7 / 10 < get_avg_intensity a
                         then map (\<lambda>rpm. rpm + 150) (case_fan base) else case_fan base)"
    using simulated_curves_result [OF b, of now a] by blast
  have "valid_curve (cpu_fan c)" "valid_curve (gpu_fan c)" "valid_curve (case_fan c)"
    using base_curves_valid [OF b] by (simp_all add: r valid_curve_raised)
  then have "valid_recommendation r" by (simp add: valid_recommendation_def r)
  with r show ?thesis by blast
qed

lemma simulated_curves_unknown:
  "\<not> known_preference pref \<Longrightarrow> generate_simulated_curves now a pref = Inl KeyError"
  by (simp add: known_preference_lookup generate_simulated_curves_def)

text \<open>
  C7. For a preference of the table and any summary, the local policy returns curves such
  that: if the average CPU temperature exceeds 70, every CPU setpoint is at least the base
  setpoint of the preference plus 200; if the average GPU temperature exceeds 75, every GPU
  setpoint is at least the base setpoint plus 200; if the average gaming intensity exceeds
  0.7, every case-fan setpoint is at least the base setpoint plus 150.
\<close>

theorem local_policy_bumps:
  assumes "known_preference pref"
  shows "\<exists>r c base. generate_simulated_curves now a pref = Inr r \<and> curves r = Curves c \<and>
           map_of base_curves pref = Some base \<and>
           (70 < get_cpu_avg a \<longrightarrow> list_all2 (\<lambda>x b. b + 200 \<le> x) (cpu_fan c) (cpu_fan base)) \<and>
           (75 < get_gpu_avg a \<longrightarrow> list_all2 (\<lambda>x b. b + 200 \<le> x) (gpu_fan c) (gpu_fan base)) \<and>
           (7 / 10 < get_avg_intensity a \<longrightarrow>
              list_all2 (\<lambda>x b. b + 150 \<le> x) (case_fan c) (case_fan base))"
proof -
  obtain base where b: "map_of base_curves pref = Some base"
    using assms by (auto simp add: known_preference_lookup)
  obtain r c where r: "generate_simulated_curves now a pref = Inr r" "curves r = Curves c"
    "cpu_fan c = (if 70 < get_cpu_avg a then map (\<lambda>rpm. rpm + 200) (cpu_fan base)
                        else cpu_fan base)"
    "gpu_fan c = (if 75 < get_gpu_avg a then map (\<lambda>rpm. rpm + 200) (gpu_fan base)
                        else gpu_fan base)"
    "case_fan c = (if 7 / 10 < get_avg_intensity a
                         then map (\<lambda>rpm. rpm + 150) (case_fan base) else case_fan base)"
    using simulated_curves_result [OF b, of now a] by blast
  show ?thesis
    apply (rule exI [of _ r], rule exI [of _ c], rule exI [of _ base])
    apply (simp add: r b raised_above)
    done
qed

lemma sum_list_replicate_real: "sum_list (replicate n (x::real)) = real n * x"
  by (induction n) (simp_all add: algebra_simps)

lemma hot_readings_average:
  "\<exists>s. analyze_temperature_data (replicate 100 hot_reading) = Inr (Summary s) \<and>
       get_cpu_avg (Summary s) = 80"
proof -
  have ne: "replicate 100 hot_reading \<noteq> []" by simp
  obtain s where s: "analyze_temperature_data (replicate 100 hot_reading) = Inr (Summary s)"
    "cpu s = channel_summary (map (\<lambda>d. get_or (r_cpu_temp d) 0) (replicate 100 hot_reading))"
    using analyze_nonempty [OF ne] by blast
  have "map (\<lambda>d. get_or (r_cpu_temp d) 0) (replicate 100 hot_reading) = replicate 100 (80::real)"
    by (simp add: hot_reading_def get_or_def)
  then have "st_avg (cpu s) = 80"
    by (simp add: s channel_summary_def sum_list_replicate_real)
  then show ?thesis using s(1) by (auto simp add: get_cpu_avg_def)
qed

theorem local_policy_bumps_witness:
  "\<exists>a r c. analyze_temperature_data (replicate 100 hot_reading) = Inr a \<and>
     get_cpu_avg a = 80 \<and>
     generate_simulated_curves ''2025-01-01T00:00:00'' a ''balanced'' = Inr r \<and>
     curves r = Curves c \<and>
     list_all2 (\<lambda>x b. b + 200 \<le> x) (cpu_fan c) [700, 1200, 1900, 3000, 3800]"
proof -
  obtain s where s: "analyze_temperature_data (replicate 100 hot_reading) = Inr (Summary s)"
    "get_cpu_avg (Summary s) = 80"
    using hot_readings_average by blast
  have k: "known_preference ''balanced''" by (simp add: known_preference_def)
  have b: "map_of base_curves ''balanced'' =
      Some \<lparr> cpu_fan = [700, 1200, 1900, 3000, 3800],
           gpu_fan = [0, 1000, 2100, 3400, 3800],
           case_fan = [500, 850, 1400, 2100, 2500] \<rparr>"
    by (simp add: base_curves_def)
  from local_policy_bumps [OF k, of "''2025-01-01T00:00:00''" "Summary s"]
  obtain r c where "generate_simulated_curves ''2025-01-01T00:00:00'' (Summary s) ''balanced'' = Inr r"
    "curves r = Curves c"
    "list_all2 (\<lambda>x b. b + 200 \<le> x) (cpu_fan c) [700, 1200, 1900, 3000, 3800]"
    using s(2) b by auto
  with s show ?thesis by blast
qed

subsection \<open>The remote path and its fallback\<close>

text \<open>Unfolding the decoder on a concrete text.\<close>

lemmas json_eval =
  json_loads_def json_space_def is_digit_def number_char_def parse_number_def digits_val_def
  parse_step_def start_value_def read_key_def close_array_def close_object_def Let_def

text \<open>
  The answer text, read by the body of \<open>_parse_claude_response\<close>: it raises exactly when
  the text holds no JSON object or the object cannot be read with \<open>.get\<close>, and otherwise
  returns a result marked as generated by the remote service.
\<close>

lemma parse_body_cases:
  "(no_json_object answer \<or> analysis_not_object answer) \<and>
     isl (parse_claude_body now (JStr answer) a pref) \<or>
   \<not> no_json_object answer \<and> \<not> analysis_not_object answer \<and>
     (\<exists>r. parse_claude_body now (JStr answer) a pref = Inr r \<and> ai_generated r \<and>
          analysis_echo r = a \<and> preference r = pref)"
proof (cases "find_char answer (CHR ''{'') \<noteq> - 1 \<and>
              find_char answer (CHR ''{'') < rfind_char answer (CHR ''}'') + 1")
  case False
  then have "no_json_object answer" by (auto simp add: no_json_object_def)
  moreover from False have "isl (parse_claude_body now (JStr answer) a pref)"
    by (auto simp add: parse_claude_body_def Let_def)
  ultimately show ?thesis by simp
next
  case True
  show ?thesis
  proof (cases "json_loads (slice answer (find_char answer (CHR ''{''))
                         (rfind_char answer (CHR ''}'') + 1))")
    case (Inl e)
    then have "no_json_object answer" by (simp add: no_json_object_def)
    moreover from True Inl have "isl (parse_claude_body now (JStr answer) a pref)"
      by (auto simp add: parse_claude_body_def Let_def)
    ultimately show ?thesis by simp
  next
    case loaded: (Inr claude_data)
    with True have obj: "\<not> no_json_object answer" by (auto simp add: no_json_object_def)
    show ?thesis
    proof (cases claude_data)
      case (JObj kvs)
      show ?thesis
      proof (cases "dict_get kvs ''analysis'' (JObj [])")
        case inner: (JObj akvs)
        with loaded JObj have "\<not> analysis_not_object answer"
          by (simp add: analysis_not_object_def)
        moreover from True loaded JObj inner
        have "\<exists>r. parse_claude_body now (JStr answer) a pref = Inr r \<and> ai_generated r \<and>
                  analysis_echo r = a \<and> preference r = pref"
          by (auto simp add: parse_claude_body_def Let_def)
        ultimately show ?thesis using obj by simp
      qed (use True loaded JObj in
            \<open>auto simp add: analysis_not_object_def parse_claude_body_def Let_def\<close>)
    qed (use True loaded in
          \<open>auto simp add: analysis_not_object_def parse_claude_body_def Let_def\<close>)
  qed
qed

lemma parse_body_fails:
  assumes "no_json_object answer \<or> analysis_not_object answer"
  shows "isl (parse_claude_body now (JStr answer) a pref)"
  using assms parse_body_cases [of answer now a pref] by blast

lemma parse_fallback_no_object:
  assumes "no_json_object answer \<or> analysis_not_object answer"
  shows "parse_claude_response now (JStr answer) a pref = generate_simulated_curves now a pref"
  using parse_body_fails [OF assms, of now a pref]
  by (cases "parse_claude_body now (JStr answer) a pref")
     (simp_all add: parse_claude_response_def)

lemma parse_accepts_object:
  assumes "\<not> no_json_object answer" and "\<not> analysis_not_object answer"
  shows "\<exists>r. parse_claude_response now (JStr answer) a pref = Inr r \<and> ai_generated r"
proof -
  from assms parse_body_cases [of answer now a pref]
  obtain r where "parse_claude_body now (JStr answer) a pref = Inr r" "ai_generated r"
    by blast
  then show ?thesis by (simp add: parse_claude_response_def)
qed

lemma handler_idempotent:
  "(case generate_simulated_curves now a pref of
      Inr r \<Rightarrow> Inr r
    | Inl e \<Rightarrow> generate_simulated_curves now a pref) = generate_simulated_curves now a pref"
  by (cases "generate_simulated_curves now a pref") simp_all

lemma remote_failure_is_local:
  assumes "remote_fails remote"
  shows "generate_claude_curves remote now a pref = generate_simulated_curves now a pref"
proof (cases "build_claude_prompt a pref")
  case (Inl e)
  then show ?thesis by (simp add: generate_claude_curves_def claude_curves_body_def)
next
  case prompt: (Inr p)
  show ?thesis
  proof (cases remote)
    case Post_raises
    with prompt show ?thesis by (simp add: generate_claude_curves_def claude_curves_body_def)
  next
    case (Response status_code body)
    show ?thesis
    proof (cases "status_code = 200")
      case False
      with prompt Response show ?thesis
        by (simp add: generate_claude_curves_def claude_curves_body_def handler_idempotent)
    next
      case ok: True
      show ?thesis
      proof (cases body)
        case None
        with prompt Response ok show ?thesis
          by (simp add: generate_claude_curves_def claude_curves_body_def)
      next
        case (Some result)
        show ?thesis
        proof (cases "response_text result")
          case (Inl e)
          with prompt Response ok Some show ?thesis
            by (simp add: generate_claude_curves_def claude_curves_body_def)
        next
          case ct: (Inr claude_response)
          have "parse_claude_response now claude_response a pref =
                  generate_simulated_curves now a pref"
          proof (cases claude_response)
            case (JStr t)
            with assms Response ok Some ct
            have "no_json_object t \<or> analysis_not_object t" by simp
            with JStr show ?thesis by (simp add: parse_fallback_no_object)
          qed (simp_all add: parse_claude_response_def parse_claude_body_def)
          with prompt Response ok Some ct show ?thesis
            by (simp add: generate_claude_curves_def claude_curves_body_def handler_idempotent)
        qed
      qed
    qed
  qed
qed

text \<open>
  \<open>remote_fails\<close> leaves out no way into the handlers: for a summary with all its keys,
  a remote outcome that does not fail is returned as a result marked as generated by the
  remote service, which the local policy never produces. For the empty dictionary the
  prompt cannot be built and the local policy answers before any request is sent.
\<close>

lemma remote_success_is_ai:
  assumes "\<not> remote_fails remote"
  shows "\<exists>r. generate_fan_curves False remote now (Summary s) pref = Inr r \<and> ai_generated r"
proof (cases remote)
  case Post_raises
  with assms show ?thesis by simp
next
  case (Response status_code body)
  with assms have ok: "status_code = 200" by simp
  show ?thesis
  proof (cases body)
    case None
    with assms Response show ?thesis by simp
  next
    case (Some result)
    show ?thesis
    proof (cases "response_text result")
      case (Inl e)
      with assms Response Some show ?thesis by simp
    next
      case ct: (Inr claude_response)
      show ?thesis
      proof (cases claude_response)
        case (JStr t)
        with assms Response Some ct
        have "\<not> no_json_object t" and "\<not> analysis_not_object t" by simp_all
        from parse_accepts_object [OF this, of now "Summary s" pref]
        obtain r where "parse_claude_response now (JStr t) (Summary s) pref = Inr r"
            "ai_generated r"
          by blast
        with Response ok Some ct JStr show ?thesis
          by (simp add: generate_fan_curves_def generate_claude_curves_def
              claude_curves_body_def build_claude_prompt_def)
      qed (use assms Response Some ct in simp_all)
    qed
  qed
qed

lemma empty_summary_is_local:
  "generate_fan_curves False remote now Empty_dict pref =
     generate_simulated_curves now Empty_dict pref"
  by (simp add: generate_fan_curves_def generate_claude_curves_def claude_curves_body_def
      build_claude_prompt_def)

text \<open>
  C6. For a preference of the table and any summary: when the remote path fails (the
  request raises, the status is not 200, the body is not JSON or lacks
  \<open>content[0].text\<close>, the answer text holds no JSON object that decodes, or the
  decoded object cannot be read with \<open>.get\<close>),
  \<open>generate_fan_curves\<close>
  on the remote path returns exactly what the local policy returns, no error reaches the
  caller, and the result has five non-negative setpoints for each of the three fans.
\<close>

theorem remote_failure_falls_back:
  assumes "known_preference pref" and "remote_fails remote"
  shows "generate_fan_curves False remote now a pref = generate_simulated_curves now a pref \<and>
         (\<exists>r. generate_fan_curves False remote now a pref = Inr r \<and>
              valid_recommendation r \<and> \<not> ai_generated r)"
  using remote_failure_is_local [OF assms(2), of now a pref]
        simulated_curves_valid [OF assms(1), of now a]
  by (simp add: generate_fan_curves_def)

theorem remote_failure_falls_back_witness:
  "known_preference ''balanced'' \<and>
   remote_fails (Response 200
      (Some (JObj [(''content'', JArr [JObj [(''text'', JStr ''no curves today'')]])]))) \<and>
   generate_fan_curves False
      (Response 200
         (Some (JObj [(''content'', JArr [JObj [(''text'', JStr ''no curves today'')]])])))
      ''2025-01-01T00:00:00'' (Summary hot_summary) ''balanced'' =
     generate_simulated_curves ''2025-01-01T00:00:00'' (Summary hot_summary) ''balanced'' \<and>
   (\<exists>r. generate_fan_curves False
          (Response 200
             (Some (JObj [(''content'', JArr [JObj [(''text'', JStr ''no curves today'')]])])))
          ''2025-01-01T00:00:00'' (Summary hot_summary) ''balanced'' = Inr r \<and>
        valid_recommendation r \<and> \<not> ai_generated r)"
proof -
  have k: "known_preference ''balanced''" by (simp add: known_preference_def)
  have f: "remote_fails (Response 200
      (Some (JObj [(''content'', JArr [JObj [(''text'', JStr ''no curves today'')]])])))"
    by (simp add: response_text_def subscript_key_def subscript_0_def no_json_object_def)
  have "generate_fan_curves False
      (Response 200
         (Some (JObj [(''content'', JArr [JObj [(''text'', JStr ''no curves today'')]])])))
      ''2025-01-01T00:00:00'' (Summary hot_summary) ''balanced'' =
     generate_simulated_curves ''2025-01-01T00:00:00'' (Summary hot_summary) ''balanced'' \<and>
   (\<exists>r. generate_fan_curves False
          (Response 200
             (Some (JObj [(''content'', JArr [JObj [(''text'', JStr ''no curves today'')]])])))
          ''2025-01-01T00:00:00'' (Summary hot_summary) ''balanced'' = Inr r \<and>
        valid_recommendation r \<and> \<not> ai_generated r)"
    using remote_failure_falls_back [OF k f, of "''2025-01-01T00:00:00''" "Summary hot_summary"]
    by blast
  with k f show ?thesis by blast
qed

text \<open>
  The outcome of the request decides the result on this summary. The same request answered
  with the text \<open>{}\<close> is not a failure, and the result is the one of the remote path. An
  answer whose entry \<open>analysis\<close> is a number decodes, raises \<open>AttributeError\<close> at
  \<open>.get\<close>, and is a failure.
\<close>

lemma remote_answer_is_used:
  "\<not> remote_fails (Response 200
      (Some (JObj [(''content'', JArr [JObj [(''text'', JStr ''{}'')]])]))) \<and>
   (\<exists>r. generate_fan_curves False
          (Response 200 (Some (JObj [(''content'', JArr [JObj [(''text'', JStr ''{}'')]])])))
          ''2025-01-01T00:00:00'' (Summary hot_summary) ''balanced'' = Inr r \<and>
        ai_generated r \<and> curves r = Json_curves (JObj []))"
  by (simp add: response_text_def subscript_key_def subscript_0_def no_json_object_def
      analysis_not_object_def generate_fan_curves_def generate_claude_curves_def
      claude_curves_body_def build_claude_prompt_def parse_claude_response_def
      parse_claude_body_def rfind_char_def slice_def dict_get_def json_eval)

lemma analysis_number_fails:
  "json_loads (CHR ''{'' # CHR 0x22 # ''analysis'' @ CHR 0x22 # '': 1}'') =
     Inr (JObj [(''analysis'', JInt 1)]) \<and>
   remote_fails (Response 200
      (Some (JObj [(''content'', JArr [JObj [(''text'',
         JStr (CHR ''{'' # CHR 0x22 # ''analysis'' @ CHR 0x22 # '': 1}''))]])]))) \<and>
   generate_fan_curves False
      (Response 200
         (Some (JObj [(''content'', JArr [JObj [(''text'',
            JStr (CHR ''{'' # CHR 0x22 # ''analysis'' @ CHR 0x22 # '': 1}''))]])])))
      now (Summary hot_summary) ''balanced'' =
     generate_simulated_curves now (Summary hot_summary) ''balanced''"
proof -
  have l: "json_loads (CHR ''{'' # CHR 0x22 # ''analysis'' @ CHR 0x22 # '': 1}'') =
     Inr (JObj [(''analysis'', JInt 1)])"
    by (simp add: json_eval)
  have f: "remote_fails (Response 200
      (Some (JObj [(''content'', JArr [JObj [(''text'',
         JStr (CHR ''{'' # CHR 0x22 # ''analysis'' @ CHR 0x22 # '': 1}''))]])])))"
    using l
    by (simp add: response_text_def subscript_key_def subscript_0_def no_json_object_def
        analysis_not_object_def rfind_char_def slice_def dict_get_def)
  show ?thesis
    using l f remote_failure_is_local [OF f, of now "Summary hot_summary" "''balanced''"]
    by (simp add: generate_fan_curves_def)
qed

text \<open>
  C10. For a preference outside the table the local policy raises \<open>KeyError\<close>; so does
  \<open>generate_fan_curves\<close> in simulation mode, and so does the remote path whenever the
  remote call fails, because its handler calls the local policy. By
  \<open>simulated_total_iff\<close> the local policy returns a result exactly for the three
  preferences of the table.
\<close>

theorem unknown_preference_raises:
  assumes "\<not> known_preference pref"
  shows "generate_simulated_curves now a pref = Inl KeyError \<and>
         generate_fan_curves True remote now a pref = Inl KeyError \<and>
         (remote_fails remote \<longrightarrow> generate_fan_curves False remote now a pref = Inl KeyError)"
  using simulated_curves_unknown [OF assms, of now a] remote_failure_is_local [of remote now a pref]
  by (simp add: generate_fan_curves_def)

lemma simulated_total_iff:
  "(\<exists>r. generate_simulated_curves now a pref = Inr r) \<longleftrightarrow> known_preference pref"
  using simulated_curves_valid [of pref now a] simulated_curves_unknown [of pref now a]
  by (cases "known_preference pref") auto

theorem unknown_preference_raises_witness:
  "\<not> known_preference ''turbo'' \<and> remote_fails Post_raises \<and>
   generate_simulated_curves ''2025-01-01T00:00:00'' Empty_dict ''turbo'' = Inl KeyError \<and>
   generate_fan_curves True Post_raises ''2025-01-01T00:00:00'' Empty_dict ''turbo''
     = Inl KeyError \<and>
   generate_fan_curves False Post_raises ''2025-01-01T00:00:00'' Empty_dict ''turbo''
     = Inl KeyError"
proof -
  have k: "\<not> known_preference ''turbo''" by (simp add: known_preference_def)
  show ?thesis
    using unknown_preference_raises [OF k, of "''2025-01-01T00:00:00''" Empty_dict Post_raises] k
    by simp
qed

text \<open>
  What the remote path does not treat as a failure: an answer whose JSON object decodes
  is accepted whatever its shape. The answer \<open>{}\<close> is returned as an AI recommendation
  whose \<open>fan_curves\<close> is the empty dictionary.
\<close>

lemma loads_empty_object: "json_loads ''{}'' = Inr (JObj [])"
  by (simp add: json_eval)

lemma empty_object_accepted:
  "parse_claude_response now (JStr ''{}'') a pref =
     Inr \<lparr> preference = pref,
           curves = Json_curves (JObj []),
           analysis_echo = a,
           claude_analysis = Some (JObj []),
           recommendations =
             Claude_notes (JStr ''Analysis complete'') (JStr ''Optimized for your usage'')
               (JStr ''Improved cooling expected'') (JStr ''Balanced noise levels''),
           timestamp = now,
           ai_generated = True \<rparr>"
  by (simp add: parse_claude_response_def parse_claude_body_def rfind_char_def slice_def
      loads_empty_object dict_get_def Let_def)

section \<open>Properties of the log reader\<close>

lemma repair_truncated_log:
  "repair_content truncated_log =
     [CHR ''['', CHR ''{'', CHR 0x22, CHR ''a'', CHR 0x22, CHR '':'', CHR ''1'', CHR ''}'',
      CHR '','', CHR ''{'', CHR 0x22, CHR ''b'', CHR 0x22, CHR '':'', CHR ''2'', CHR ''}'',
      CHR 0x0A, CHR '']'']"
  by (simp add: truncated_log_def repair_content_def strip_def py_isspace_def endswith_def Let_def)

lemma loads_repaired_log:
  "json_loads (repair_content truncated_log) =
     Inr (JArr [JObj [(''a'', JInt 1)], JObj [(''b'', JInt 2)]])"
  unfolding repair_truncated_log by (simp add: json_eval)

lemma loads_truncated_log_fails: "json_loads truncated_log = Inl JSONDecodeError"
  by (simp add: truncated_log_def json_eval)

text \<open>
  C8. The log reader on the truncated log \<open>[{"a":1},{"b":2},\<close> drops the trailing
  comma, appends a line break and the closing bracket, and decodes the result: the history
  holds exactly the two records and the current reading is the last of them. No handler
  runs.
\<close>

theorem truncated_log_loads:
  "load_sensor_data (Inr truncated_log) st =
     \<lparr> sensor_history = [JObj [(''a'', JInt 1)], JObj [(''b'', JInt 2)]],
       current_sensor_data = JObj [(''b'', JInt 2)] \<rparr> \<and>
   length (sensor_history (load_sensor_data (Inr truncated_log) st)) = 2"
proof -
  have ne: "repair_content truncated_log \<noteq> []"
    unfolding repair_truncated_log by simp
  have "load_sensor_data (Inr truncated_log) st =
     \<lparr> sensor_history = [JObj [(''a'', JInt 1)], JObj [(''b'', JInt 2)]],
       current_sensor_data = JObj [(''b'', JInt 2)] \<rparr>"
    by (simp add: load_sensor_data_def Let_def ne loads_repaired_log)
  then show ?thesis by simp
qed

end
